theory Spec2Isabelle
  imports Main "HOL-Library.AList" "HOL-Library.Sublist"
begin

section \<open>Text: the string operations the scraper relies on\<close>

text \<open>
  Python strings are modelled as \<^typ>\<open>string\<close>: a list of 8-bit characters, read as the
  code points 0 to 255.  The character classes below are the ones Python uses on
  that range: \<open>str.strip\<close> and \<open>\s\<close> share one whitespace set, \<open>\d\<close> is the ten ASCII
  digits, and \<open>\w\<close> is the alphanumeric characters and the underscore.
\<close>

definition is_space :: "char \<Rightarrow> bool" where
  "is_space c =
     (let n = (of_char c :: nat)
      in (9 \<le> n \<and> n \<le> 13) \<or> (28 \<le> n \<and> n \<le> 32) \<or> n = 133 \<or> n = 160)"

definition is_digit :: "char \<Rightarrow> bool" where
  "is_digit c = (let n = (of_char c :: nat) in 48 \<le> n \<and> n \<le> 57)"

definition is_word :: "char \<Rightarrow> bool" where
  "is_word c =
     (let n = (of_char c :: nat)
      in (48 \<le> n \<and> n \<le> 57) \<or> (65 \<le> n \<and> n \<le> 90) \<or> n = 95 \<or> (97 \<le> n \<and> n \<le> 122)
         \<or> n = 170 \<or> n = 178 \<or> n = 179 \<or> n = 181 \<or> n = 185 \<or> n = 186
         \<or> (188 \<le> n \<and> n \<le> 190) \<or> (192 \<le> n \<and> n \<le> 214)
         \<or> (216 \<le> n \<and> n \<le> 246) \<or> (248 \<le> n \<and> n \<le> 255))"

text \<open>\<open>s.strip()\<close>: drop the whitespace at both ends.\<close>

definition strip :: "string \<Rightarrow> string" where
  "strip s = rev (dropWhile is_space (rev (dropWhile is_space s)))"

text \<open>\<open>sep.join(xs)\<close>.\<close>

fun join :: "string \<Rightarrow> string list \<Rightarrow> string" where
  "join sep [] = []"
| "join sep [x] = x"
| "join sep (x # y # ys) = x @ sep @ join sep (y # ys)"

text \<open>
  \<open>s.replace(old, new)\<close>: every occurrence of \<open>old\<close>, found from the left without
  overlap, is replaced.  The counter \<open>k\<close> is the number of characters of the occurrence
  just replaced that are still to be skipped.  An empty \<open>old\<close> matches between any two
  characters and at both ends.
\<close>

primrec replace_from :: "string \<Rightarrow> string \<Rightarrow> nat \<Rightarrow> string \<Rightarrow> string" where
  "replace_from old new k [] = []"
| "replace_from old new k (c # cs) =
     (if 0 < k then replace_from old new (k - 1) cs
      else if prefix old (c # cs) then new @ replace_from old new (length old - 1) cs
      else c # replace_from old new 0 cs)"

definition replace :: "string \<Rightarrow> string \<Rightarrow> string \<Rightarrow> string" where
  "replace old new s =
     (if old = [] then new @ concat (map (\<lambda>c. c # new) s) else replace_from old new 0 s)"

text \<open>\<open>sub in s\<close>.\<close>

primrec contains :: "string \<Rightarrow> string \<Rightarrow> bool" where
  "contains sub [] = (sub = [])"
| "contains sub (c # cs) = (prefix sub (c # cs) \<or> contains sub cs)"

text \<open>Splitting at whitespace, as the HTML tree builder does for a \<open>class\<close> attribute.\<close>

primrec split_ws_from :: "string \<Rightarrow> string \<Rightarrow> string list" where
  "split_ws_from cur [] = (if cur = [] then [] else [cur])"
| "split_ws_from cur (c # cs) =
     (if is_space c then (if cur = [] then split_ws_from [] cs else cur # split_ws_from [] cs)
      else split_ws_from (cur @ [c]) cs)"

definition split_ws :: "string \<Rightarrow> string list" where
  "split_ws s = split_ws_from [] s"

subsection \<open>The time pattern\<close>

text \<open>
  \<open>re.compile(r'\b\d{1,2}:\d{2}\b')\<close>.  \<open>match_time s\<close> is the length of the match
  that starts at the head of \<open>s\<close>, once the word boundary in front is known to hold: two
  digits are tried before one, and the character after the minutes must not be a word
  character.
\<close>

definition at_word_end :: "string \<Rightarrow> bool" where
  "at_word_end s = (case s of [] \<Rightarrow> True | c # _ \<Rightarrow> \<not> is_word c)"

fun match_time :: "string \<Rightarrow> nat option" where
  "match_time (h1 # h2 # c # m1 # m2 # rest) =
     (if is_digit h1 \<and> is_digit h2 \<and> c = CHR '':'' \<and> is_digit m1 \<and> is_digit m2
         \<and> at_word_end rest then Some 5
      else if is_digit h1 \<and> h2 = CHR '':'' \<and> is_digit c \<and> is_digit m1
         \<and> at_word_end (m2 # rest) then Some 4
      else None)"
| "match_time [h1, c, m1, m2] =
     (if is_digit h1 \<and> c = CHR '':'' \<and> is_digit m1 \<and> is_digit m2 then Some 4 else None)"
| "match_time _ = None"

text \<open>
  \<open>time_pattern.findall(text)\<close>: the matches from left to right, without overlap.
  \<open>pw\<close> says whether the character before the current position is a word character
  (\<open>False\<close> at the start), and \<open>k\<close> counts the characters of the last match still to be
  passed.
\<close>

primrec findall_from :: "nat \<Rightarrow> bool \<Rightarrow> string \<Rightarrow> string list" where
  "findall_from k pw [] = []"
| "findall_from k pw (c # cs) =
     (if 0 < k then findall_from (k - 1) (is_word c) cs
      else if pw then findall_from 0 (is_word c) cs
      else (case match_time (c # cs) of
              Some n \<Rightarrow> take n (c # cs) # findall_from (n - 1) (is_word c) cs
            | None \<Rightarrow> findall_from 0 (is_word c) cs))"

definition findall_time :: "string \<Rightarrow> string list" where
  "findall_time s = findall_from 0 False s"

section \<open>The document tree\<close>

text \<open>
  \<open>BeautifulSoup(html, 'html.parser')\<close> returns a tree; the scraper only walks it.
  A node is a tag with its name, its attribute dictionary and its children, or a
  string.  \<open>NavigableString\<close> is the text that \<open>get_text\<close> collects; \<open>Special\<close> stands
  for the string kinds \<open>get_text\<close> leaves out (comments, declarations, the text of
  scripts and style sheets), which \<open>.string\<close> still returns.
\<close>

datatype node =
    NavigableString string
  | Special string
  | Tag string "(string \<times> string) list" "node list"

text \<open>\<open>tag.get(key, default)\<close> on the attribute dictionary.\<close>

definition get_attr :: "node \<Rightarrow> string \<Rightarrow> string \<Rightarrow> string" where
  "get_attr t key dflt =
     (case t of
        Tag _ attrs _ \<Rightarrow> (case map_of attrs key of Some v \<Rightarrow> v | None \<Rightarrow> dflt)
      | _ \<Rightarrow> dflt)"

text \<open>
  \<open>tag.descendants\<close>: every node below the tag in document order.  Each node comes
  with the siblings that follow it, which is what \<open>find_next_sibling\<close> walks.
\<close>

fun descendants :: "node \<Rightarrow> (node \<times> node list) list"
  and walk :: "node list \<Rightarrow> (node \<times> node list) list" where
  "descendants (Tag name attrs cs) = walk cs"
| "descendants (NavigableString s) = []"
| "descendants (Special s) = []"
| "walk [] = []"
| "walk (c # cs) = (c, cs) # descendants c @ walk cs"

text \<open>\<open>tag.children\<close>.\<close>

definition children :: "node \<Rightarrow> node list" where
  "children t = (case t of Tag _ _ cs \<Rightarrow> cs | _ \<Rightarrow> [])"

text \<open>
  The two filters of the searches in the source: the tag name, and \<open>class_=c\<close>, which
  holds when \<open>c\<close> is one of the whitespace-separated values of the \<open>class\<close> attribute.
\<close>

definition has_class :: "string \<Rightarrow> node \<Rightarrow> bool" where
  "has_class c t =
     (case t of
        Tag _ attrs _ \<Rightarrow> (case map_of attrs ''class'' of
                            Some v \<Rightarrow> c \<in> set (split_ws v)
                          | None \<Rightarrow> False)
      | _ \<Rightarrow> False)"

definition matches :: "string \<Rightarrow> string option \<Rightarrow> node \<Rightarrow> bool" where
  "matches name cls t =
     (case t of
        Tag n _ _ \<Rightarrow> n = name \<and> (case cls of None \<Rightarrow> True | Some c \<Rightarrow> has_class c t)
      | _ \<Rightarrow> False)"

definition find_all_ctx :: "string \<Rightarrow> string option \<Rightarrow> node \<Rightarrow> (node \<times> node list) list" where
  "find_all_ctx name cls t = filter (\<lambda>p. matches name cls (fst p)) (descendants t)"

definition find_all :: "string \<Rightarrow> string option \<Rightarrow> node \<Rightarrow> node list" where
  "find_all name cls t = map fst (find_all_ctx name cls t)"

text \<open>\<open>tag.find_all(name, recursive=False)\<close>: the children only.\<close>

definition find_all_children :: "string \<Rightarrow> string option \<Rightarrow> node \<Rightarrow> node list" where
  "find_all_children name cls t = filter (matches name cls) (children t)"

text \<open>\<open>tag.find(...)\<close>: the first result of \<open>find_all\<close>, or \<open>None\<close>.\<close>

definition find_first :: "string \<Rightarrow> string option \<Rightarrow> node \<Rightarrow> node option" where
  "find_first name cls t = (case find_all name cls t of [] \<Rightarrow> None | x # _ \<Rightarrow> Some x)"

text \<open>
  \<open>tag.find_next_sibling(name, class_=c)\<close>: the first of the siblings after the tag
  that passes the filter.
\<close>

definition find_next_sibling :: "string \<Rightarrow> string option \<Rightarrow> node list \<Rightarrow> node option" where
  "find_next_sibling name cls later = List.find (matches name cls) later"

text \<open>
  \<open>tag.get_text(sep, strip=True)\<close>: the text strings below the tag, each stripped, the
  empty ones dropped, joined by \<open>sep\<close>.
\<close>

definition text_of :: "node \<Rightarrow> string option" where
  "text_of t = (case t of NavigableString s \<Rightarrow> Some s | _ \<Rightarrow> None)"

definition stripped_strings :: "node \<Rightarrow> string list" where
  "stripped_strings t =
     filter (\<lambda>s. s \<noteq> []) (map strip (List.map_filter (\<lambda>p. text_of (fst p)) (descendants t)))"

definition get_text :: "string \<Rightarrow> node \<Rightarrow> string" where
  "get_text sep t = join sep (stripped_strings t)"

text \<open>
  \<open>tag.string\<close>: the only child when it is a string, the \<open>.string\<close> of the only child
  when it is a tag, \<open>None\<close> when the tag has no child or several.
\<close>

fun dot_string :: "node \<Rightarrow> string option" where
  "dot_string (Tag name attrs [c]) =
     (case c of NavigableString s \<Rightarrow> Some s | Special s \<Rightarrow> Some s | Tag _ _ _ \<Rightarrow> dot_string c)"
| "dot_string (Tag name attrs cs) = None"
| "dot_string (NavigableString s) = Some s"
| "dot_string (Special s) = Some s"

text \<open>
  \<open>article.find("a", string=lambda s: s and "Showtimes" in s)\<close>: the first \<open>a\<close> tag
  whose \<open>.string\<close> exists, is not empty and contains the word.
\<close>

definition showtimes_string :: "node \<Rightarrow> bool" where
  "showtimes_string t =
     (case dot_string t of None \<Rightarrow> False | Some s \<Rightarrow> s \<noteq> [] \<and> contains ''Showtimes'' s)"

definition find_showtimes_a :: "node \<Rightarrow> node option" where
  "find_showtimes_a t = List.find showtimes_string (find_all ''a'' None t)"

section \<open>Movie records\<close>

type_synonym experience_dict = "(string \<times> string list) list"
type_synonym place_dict = "(string \<times> experience_dict) list"

text \<open>
  The value stored under a date: the dictionary with the two keys \<open>day_of_week\<close> and
  \<open>showtimes\<close>.  Python dictionaries keep insertion order and hold a key once, so a
  dictionary is an association list changed by \<^const>\<open>AList.update\<close>: a new key goes to
  the end, a key already present keeps its place and takes the new value.
\<close>

record day_entry =
  day_of_week :: string
  showtimes :: place_dict

record Movie =
  slug :: string
  "identifier" :: string
  title :: string
  description :: string
  image_url :: string
  classification :: string
  language :: string
  showtimes_url :: string
  timings :: "(string \<times> day_entry) list"

section \<open>The listing parser\<close>

text \<open>The body of the loop of \<open>parse_movies\<close>, one article at a time.\<close>

definition parse_article :: "node \<Rightarrow> Movie" where
  "parse_article article =
     (let slug_v = strip (get_attr article ''data-slug'' []);
          identifier_v = strip (get_attr article ''data-identifier'' []);
          title_v = strip (get_attr article ''data-title'' []);
          description_v =
            (case find_first ''p'' (Some ''movie-description'') article of
               Some desc_tag \<Rightarrow> get_text [] desc_tag
             | None \<Rightarrow> []);
          image_url_v =
            (case find_first ''a'' None article of
               Some a_tag \<Rightarrow>
                 (case find_first ''img'' None a_tag of
                    Some img_tag \<Rightarrow> strip (get_attr img_tag ''data-src'' [])
                  | None \<Rightarrow> [])
             | None \<Rightarrow> []);
          classification_v =
            (case find_first ''span'' (Some ''classification'') article of
               Some class_span \<Rightarrow> get_text [] class_span
             | None \<Rightarrow> []);
          language_v =
            (case find_first ''p'' (Some ''language'') article of
               Some language_p \<Rightarrow> strip (replace ''Language:'' [] (get_text [] language_p))
             | None \<Rightarrow> []);
          showtimes_url_v =
            (case find_showtimes_a article of
               Some showtimes_a \<Rightarrow> strip (get_attr showtimes_a ''href'' [])
             | None \<Rightarrow> [])
      in \<lparr> slug = slug_v, identifier = identifier_v, title = title_v,
           description = description_v, image_url = image_url_v,
           classification = classification_v, language = language_v,
           showtimes_url = showtimes_url_v, timings = [] \<rparr>)"

text \<open>\<open>parse_movies\<close> on the tree the HTML parser returned.\<close>

definition parse_movies_soup :: "node \<Rightarrow> Movie list" where
  "parse_movies_soup soup = map parse_article (find_all ''article'' (Some ''movie-summary'') soup)"

section \<open>The detail parser\<close>

text \<open>The text of one time entry: the link's text when the entry holds a link.\<close>

definition time_text_of :: "node \<Rightarrow> string" where
  "time_text_of time_li =
     (case find_first ''a'' None time_li of
        Some a_tag \<Rightarrow> get_text '' '' a_tag
      | None \<Rightarrow> get_text '' '' time_li)"

text \<open>The loop over the entries of the nested list; \<open>acc\<close> is the list \<open>timings\<close>.\<close>

fun collect_times :: "node list \<Rightarrow> string list \<Rightarrow> string list" where
  "collect_times [] acc = acc"
| "collect_times (time_li # rest) acc =
     (let time_text = time_text_of time_li;
          found_times = findall_time time_text
      in if found_times \<noteq> [] then collect_times rest (acc @ found_times)
         else if time_text \<noteq> [] then collect_times rest (acc @ [time_text])
         else collect_times rest acc)"

text \<open>The loop over the items of the experience list; \<open>acc\<close> is \<open>experience_dict\<close>.\<close>

fun collect_experiences :: "node list \<Rightarrow> experience_dict \<Rightarrow> experience_dict" where
  "collect_experiences [] acc = acc"
| "collect_experiences (li # rest) acc =
     (case find_first ''strong'' None li of
        None \<Rightarrow> collect_experiences rest acc
      | Some strong_tag \<Rightarrow>
          (let experience = get_text '' '' strong_tag
           in case find_first ''ol'' None li of
                None \<Rightarrow> collect_experiences rest acc
              | Some nested_ol \<Rightarrow>
                  collect_experiences rest
                    (AList.update experience
                       (collect_times (find_all ''li'' None nested_ol) []) acc)))"

text \<open>The loop over the cinema headings; \<open>acc\<close> is \<open>timings_by_place\<close>.\<close>

fun collect_places :: "(node \<times> node list) list \<Rightarrow> place_dict \<Rightarrow> place_dict" where
  "collect_places [] acc = acc"
| "collect_places ((place_header, later) # rest) acc =
     (let place = get_text '' '' place_header
      in case find_next_sibling ''ol'' (Some ''showtimes'') later of
           None \<Rightarrow> collect_places rest acc
         | Some showtimes_ol \<Rightarrow>
             collect_places rest
               (AList.update place
                  (collect_experiences (find_all_children ''li'' None showtimes_ol) []) acc))"

text \<open>\<open>extract_showtimes\<close> on the tree the HTML parser returned.\<close>

definition extract_showtimes_soup :: "node \<Rightarrow> place_dict" where
  "extract_showtimes_soup soup =
     (case find_first ''div'' (Some ''dates'') soup of
        None \<Rightarrow> []
      | Some dates_div \<Rightarrow> collect_places (find_all_ctx ''h3'' (Some ''highlight'') dates_div) [])"

section \<open>Calendar dates\<close>

text \<open>
  A \<open>datetime\<close> at midnight is its year, month and day in the proleptic Gregorian
  calendar.  The day number \<open>toordinal\<close> and \<open>weekday\<close> are computed the way the
  library computes them (day 1 is 0001-01-01, weekday 0 is Monday).
\<close>

record date =
  year :: nat
  month :: nat
  day :: nat

definition is_leap :: "nat \<Rightarrow> bool" where
  "is_leap y = (y mod 4 = 0 \<and> (y mod 100 \<noteq> 0 \<or> y mod 400 = 0))"

definition days_in_month :: "nat \<Rightarrow> nat \<Rightarrow> nat" where
  "days_in_month y m =
     (if m = 2 then (if is_leap y then 29 else 28)
      else if m = 4 \<or> m = 6 \<or> m = 9 \<or> m = 11 then 30
      else 31)"

definition days_before_year :: "nat \<Rightarrow> nat" where
  "days_before_year y = (let y1 = y - 1 in y1 * 365 + y1 div 4 - y1 div 100 + y1 div 400)"

definition days_before_month :: "nat \<Rightarrow> nat \<Rightarrow> nat" where
  "days_before_month y m = sum_list (map (days_in_month y) [1..<m])"

definition toordinal :: "date \<Rightarrow> nat" where
  "toordinal d = days_before_year (year d) + days_before_month (year d) (month d) + day d"

definition weekday :: "date \<Rightarrow> nat" where
  "weekday d = (toordinal d + 6) mod 7"

definition valid_date :: "date \<Rightarrow> bool" where
  "valid_date d =
     (1 \<le> year d \<and> year d \<le> 9999 \<and> 1 \<le> month d \<and> month d \<le> 12
      \<and> 1 \<le> day d \<and> day d \<le> days_in_month (year d) (month d))"

text \<open>The calendar date that follows a date, and the date \<open>n\<close> days later.\<close>

definition next_day :: "date \<Rightarrow> date" where
  "next_day d =
     (if day d < days_in_month (year d) (month d) then d\<lparr>day := day d + 1\<rparr>
      else if month d < 12 then d\<lparr>month := month d + 1, day := 1\<rparr>
      else \<lparr>year = year d + 1, month = 1, day = 1\<rparr>)"

primrec add_days :: "date \<Rightarrow> nat \<Rightarrow> date" where
  "add_days d 0 = d"
| "add_days d (Suc n) = next_day (add_days d n)"

subsection \<open>Exceptions\<close>

text \<open>
  The exceptions the program can meet, all subclasses of \<open>Exception\<close>: a failed
  request (network failure or HTTP error status), a failure inside the HTML parser, a
  file that cannot be opened or written, and the two the date library raises.  Each
  carries the text that \<open>str(e)\<close> prints.
\<close>

datatype error =
    FetchError string
  | ParseError string
  | WriteError string
  | ValueError string
  | OverflowError string

fun message :: "error \<Rightarrow> string" where
  "message (FetchError s) = s"
| "message (ParseError s) = s"
| "message (WriteError s) = s"
| "message (ValueError s) = s"
| "message (OverflowError s) = s"

text \<open>
  \<open>start_date + timedelta(days=n)\<close> for \<open>n \<ge> 0\<close>: the date \<open>n\<close> days later; the
  library raises \<open>OverflowError\<close> when that is after 9999-12-31.  The library adds
  \<open>n\<close> to the day number and turns the sum back into a date; here the calendar is
  stepped \<open>n\<close> times, and the day number of the result is proved below to be the
  day number of the start plus \<open>n\<close>.
\<close>

definition date_add :: "date \<Rightarrow> nat \<Rightarrow> error + date" where
  "date_add d n =
     (let r = add_days d n
      in if year r \<le> 9999 then Inr r else Inl (OverflowError ''date value out of range''))"

subsection \<open>Formatting and parsing\<close>

definition digit_char :: "nat \<Rightarrow> char" where
  "digit_char n = char_of (48 + n)"

definition digit_val :: "char \<Rightarrow> nat" where
  "digit_val c = of_char c - 48"

text \<open>\<open>str(n)\<close> for a natural number.\<close>

function str_nat :: "nat \<Rightarrow> string" where
  "str_nat n = (if n < 10 then [digit_char n] else str_nat (n div 10) @ [digit_char (n mod 10)])"
  by pat_completeness auto
termination
  by (relation "measure id") auto

declare str_nat.simps [simp del]

definition two_digits :: "nat \<Rightarrow> string" where
  "two_digits n = [digit_char (n div 10 mod 10), digit_char (n mod 10)]"

text \<open>
  \<open>strftime\<close> with the three formats of the source.  \<open>%m\<close> and \<open>%d\<close> are two digits.
  \<open>%Y\<close> is the year as the C library prints it, in decimal without padding: four
  digits from the year 1000 on.  \<open>%A\<close> is the English name of the weekday.
\<close>

definition strftime_Ymd :: "date \<Rightarrow> string" where
  "strftime_Ymd d = str_nat (year d) @ two_digits (month d) @ two_digits (day d)"

definition strftime_Y_m_d :: "date \<Rightarrow> string" where
  "strftime_Y_m_d d =
     str_nat (year d) @ ''-'' @ two_digits (month d) @ ''-'' @ two_digits (day d)"

definition day_names :: "string list" where
  "day_names =
     [''Monday'', ''Tuesday'', ''Wednesday'', ''Thursday'', ''Friday'', ''Saturday'', ''Sunday'']"

definition strftime_A :: "date \<Rightarrow> string" where
  "strftime_A d = day_names ! weekday d"

text \<open>
  The ISO form \<open>YYYY-MM-DD\<close> and the compact form \<open>YYYYMMDD\<close> as the specification
  names them, with a year of exactly four digits.
\<close>

definition four_digits :: "nat \<Rightarrow> string" where
  "four_digits n =
     [digit_char (n div 1000 mod 10), digit_char (n div 100 mod 10),
      digit_char (n div 10 mod 10), digit_char (n mod 10)]"

definition iso_date :: "date \<Rightarrow> string" where
  "iso_date d = four_digits (year d) @ ''-'' @ two_digits (month d) @ ''-'' @ two_digits (day d)"

definition compact_date :: "date \<Rightarrow> string" where
  "compact_date d = four_digits (year d) @ two_digits (month d) @ two_digits (day d)"

text \<open>
  \<open>datetime.strptime(s, "%Y%m%d")\<close>.  The library matches the pattern
  \<open>(\d\d\d\d)(1[0-2]|0[1-9]|[1-9])(3[0-1]|[1-2]\d|0[1-9]|[1-9]| [1-9])\<close> at the start of
  \<open>s\<close>, trying the alternatives in this order, rejects text left over after the first
  match, and then rejects a year 0 and a day the month does not have.
\<close>

definition month_alts :: "string \<Rightarrow> (nat \<times> string) list" where
  "month_alts s =
     (case s of
        a # b # r \<Rightarrow>
          (if a = CHR ''1'' \<and> b \<in> set ''012'' then [(10 + digit_val b, r)] else []) @
          (if a = CHR ''0'' \<and> b \<in> set ''123456789'' then [(digit_val b, r)] else [])
      | _ \<Rightarrow> []) @
     (case s of
        a # r \<Rightarrow> (if a \<in> set ''123456789'' then [(digit_val a, r)] else [])
      | _ \<Rightarrow> [])"

definition day_alts :: "string \<Rightarrow> (nat \<times> string) list" where
  "day_alts s =
     (case s of
        a # b # r \<Rightarrow>
          (if a = CHR ''3'' \<and> b \<in> set ''01'' then [(30 + digit_val b, r)] else []) @
          (if a \<in> set ''12'' \<and> is_digit b then [(10 * digit_val a + digit_val b, r)] else []) @
          (if a = CHR ''0'' \<and> b \<in> set ''123456789'' then [(digit_val b, r)] else [])
      | _ \<Rightarrow> []) @
     (case s of
        a # r \<Rightarrow> (if a \<in> set ''123456789'' then [(digit_val a, r)] else [])
      | _ \<Rightarrow> []) @
     (case s of
        a # b # r \<Rightarrow> (if a = CHR '' '' \<and> b \<in> set ''123456789'' then [(digit_val b, r)] else [])
      | _ \<Rightarrow> [])"

definition strptime_Ymd :: "string \<Rightarrow> error + date" where
  "strptime_Ymd s =
     (case s of
        y1 # y2 # y3 # y4 # rest \<Rightarrow>
          (if is_digit y1 \<and> is_digit y2 \<and> is_digit y3 \<and> is_digit y4 then
             (case concat (map (\<lambda>(m, r). map (\<lambda>(d, r'). (m, d, r')) (day_alts r)) (month_alts rest)) of
                [] \<Rightarrow> Inl (ValueError ''time data does not match format'')
              | (m, d, r') # _ \<Rightarrow>
                  (let y = 1000 * digit_val y1 + 100 * digit_val y2 + 10 * digit_val y3 + digit_val y4
                   in if r' \<noteq> [] then Inl (ValueError (''unconverted data remains: '' @ r'))
                      else if y < 1 then Inl (ValueError ''year 0 is out of range'')
                      else if days_in_month y m < d
                        then Inl (ValueError ''day is out of range for month'')
                      else Inr \<lparr>year = y, month = m, day = d\<rparr>))
           else Inl (ValueError ''time data does not match format''))
      | _ \<Rightarrow> Inl (ValueError ''time data does not match format''))"

section \<open>The outside world\<close>

text \<open>
  What the program does to its surroundings is kept in a \<open>world\<close>: the URLs requested
  so far, the lines printed, and the files written.  What the surroundings answer is
  an \<open>env\<close>: the answer to a GET request (which may depend on the requests made
  before), the HTML parser, and whether a file can be written.
\<close>

record world =
  requested :: "string list"
  console :: "string list"
  files :: "(string \<times> string) list"

record env =
  http_get :: "string list \<Rightarrow> string \<Rightarrow> error + string"
  html_parser :: "string \<Rightarrow> error + node"
  file_write :: "string \<Rightarrow> string \<Rightarrow> error option"

definition print :: "string \<Rightarrow> world \<Rightarrow> world" where
  "print line w = w\<lparr>console := console w @ [line]\<rparr>"

definition BASE_URL :: string where
  "BASE_URL = ''https://ksa.voxcinemas.com''"

definition fetch_page :: "env \<Rightarrow> string \<Rightarrow> world \<Rightarrow> (error + string) \<times> world" where
  "fetch_page e url w = (http_get e (requested w) url, w\<lparr>requested := requested w @ [url]\<rparr>)"

definition parse_movies :: "env \<Rightarrow> string \<Rightarrow> error + Movie list" where
  "parse_movies e html =
     (case html_parser e html of Inl err \<Rightarrow> Inl err | Inr soup \<Rightarrow> Inr (parse_movies_soup soup))"

definition extract_showtimes :: "env \<Rightarrow> string \<Rightarrow> error + place_dict" where
  "extract_showtimes e detail_html =
     (case html_parser e detail_html of
        Inl err \<Rightarrow> Inl err
      | Inr soup \<Rightarrow> Inr (extract_showtimes_soup soup))"

section \<open>The range enricher\<close>

text \<open>\<open>range(n)\<close>: empty when \<open>n\<close> is not positive.\<close>

definition py_range :: "int \<Rightarrow> nat list" where
  "py_range n = [0..<nat n]"

definition detail_url_of :: "Movie \<Rightarrow> date \<Rightarrow> string" where
  "detail_url_of movie current_date =
     BASE_URL @ ''/movies/'' @ slug movie @ ''?d='' @ strftime_Ymd current_date @ ''#showtimes''"

text \<open>
  One round of the loop, for the offset \<open>i\<close>.  The result is the exception that leaves
  the loop, if any, with the world and the movie as they are at that moment (the movie
  is changed in place, so what was stored stays stored).  The date addition stands
  before the \<open>try\<close>; the request and the parse stand inside it.
\<close>

definition enrich_day :: "env \<Rightarrow> date \<Rightarrow> nat \<Rightarrow> world \<times> Movie \<Rightarrow> error option \<times> world \<times> Movie" where
  "enrich_day e start_date i st =
     (case st of (w, movie) \<Rightarrow>
       (case date_add start_date i of
          Inl err \<Rightarrow> (Some err, w, movie)
        | Inr current_date \<Rightarrow>
            (let date_str = strftime_Ymd current_date;
                 pretty_date = strftime_Y_m_d current_date;
                 dow = strftime_A current_date;
                 detail_url = detail_url_of movie current_date;
                 w1 = print (''  => Fetching showtimes for '' @ [CHR 0x27] @ title movie @ [CHR 0x27]
                             @ '' on '' @ pretty_date @ '' ('' @ dow @ '')'') w;
                 (fetched, w2) = fetch_page e detail_url w1
             in case (case fetched of Inl err \<Rightarrow> Inl err
                      | Inr detail_html \<Rightarrow> extract_showtimes e detail_html) of
                  Inr daily_timings \<Rightarrow>
                    (None, w2,
                     movie\<lparr>timings := AList.update pretty_date
                               \<lparr>day_of_week = dow, showtimes = daily_timings\<rparr> (timings movie)\<rparr>)
                | Inl err \<Rightarrow>
                    (None, print (''     [Error] '' @ message err) w2,
                     movie\<lparr>timings := AList.update pretty_date
                               \<lparr>day_of_week = dow, showtimes = []\<rparr> (timings movie)\<rparr>))))"

fun enrich_loop :: "env \<Rightarrow> date \<Rightarrow> nat list \<Rightarrow> world \<times> Movie \<Rightarrow> error option \<times> world \<times> Movie" where
  "enrich_loop e start_date [] st = (None, fst st, snd st)"
| "enrich_loop e start_date (i # rest) st =
     (case enrich_day e start_date i st of
        (Some err, w', movie') \<Rightarrow> (Some err, w', movie')
      | (None, w', movie') \<Rightarrow> enrich_loop e start_date rest (w', movie'))"

definition enrich_movie_with_timings_for_dates ::
  "env \<Rightarrow> Movie \<Rightarrow> string \<Rightarrow> int \<Rightarrow> world \<Rightarrow> error option \<times> world \<times> Movie" where
  "enrich_movie_with_timings_for_dates e movie start_date_str days_to_check w =
     (case strptime_Ymd start_date_str of
        Inl err \<Rightarrow> (Some err, w, movie)
      | Inr start_date \<Rightarrow>
          enrich_loop e start_date (py_range days_to_check) (w, movie\<lparr>timings := []\<rparr>))"

section \<open>The exporter\<close>

text \<open>
  The JSON values the exporter writes: strings, arrays and objects (an object is the
  ordered dictionary it comes from).
\<close>

datatype json =
    JString string
  | JArray "json list"
  | JObject "(string \<times> json) list"

text \<open>
  \<open>asdict(movie)\<close>: the fields in the order of their declaration, the nested
  dictionaries and lists copied as they are.
\<close>

definition times_json :: "string list \<Rightarrow> json" where
  "times_json ts = JArray (map JString ts)"

definition experiences_json :: "experience_dict \<Rightarrow> json" where
  "experiences_json ed = JObject (map (\<lambda>kv. (fst kv, times_json (snd kv))) ed)"

definition places_json :: "place_dict \<Rightarrow> json" where
  "places_json pd = JObject (map (\<lambda>kv. (fst kv, experiences_json (snd kv))) pd)"

definition day_entry_json :: "day_entry \<Rightarrow> json" where
  "day_entry_json en =
     JObject [(''day_of_week'', JString (day_of_week en)),
              (''showtimes'', places_json (showtimes en))]"

definition timings_json :: "(string \<times> day_entry) list \<Rightarrow> json" where
  "timings_json tm = JObject (map (\<lambda>kv. (fst kv, day_entry_json (snd kv))) tm)"

definition asdict :: "Movie \<Rightarrow> json" where
  "asdict movie =
     JObject [(''slug'', JString (slug movie)),
              (''identifier'', JString (identifier movie)),
              (''title'', JString (title movie)),
              (''description'', JString (description movie)),
              (''image_url'', JString (image_url movie)),
              (''classification'', JString (classification movie)),
              (''language'', JString (language movie)),
              (''showtimes_url'', JString (showtimes_url movie)),
              (''timings'', timings_json (timings movie))]"

text \<open>
  \<open>json.dump(value, f, indent=2)\<close>, with the default \<open>ensure_ascii\<close>: a string is
  written between double quotes, the quote and the backslash escaped, the control
  characters as their short escape or as \<open>\u00XX\<close>, and every character above \<open>~\<close> as
  \<open>\u00XX\<close>.  An empty array or object is written closed on the spot; otherwise each
  item goes on a line of its own, indented by two spaces for each level.
\<close>

definition hex_digit :: "nat \<Rightarrow> char" where
  "hex_digit n = (if n < 10 then char_of (48 + n) else char_of (87 + n))"

definition escape_char :: "char \<Rightarrow> string" where
  "escape_char c =
     (if c = CHR 0x22 then [CHR 0x5C, CHR 0x22]
      else if c = CHR 0x5C then [CHR 0x5C, CHR 0x5C]
      else if c = CHR 0x0A then [CHR 0x5C, CHR ''n'']
      else if c = CHR 0x0D then [CHR 0x5C, CHR ''r'']
      else if c = CHR 0x09 then [CHR 0x5C, CHR ''t'']
      else if c = CHR 0x08 then [CHR 0x5C, CHR ''b'']
      else if c = CHR 0x0C then [CHR 0x5C, CHR ''f'']
      else if (of_char c :: nat) < 32 \<or> 126 < (of_char c :: nat)
        then [CHR 0x5C, CHR ''u'', CHR ''0'', CHR ''0'',
              hex_digit (of_char c div 16), hex_digit (of_char c mod 16)]
      else [c])"

definition encode_string :: "string \<Rightarrow> string" where
  "encode_string s = [CHR 0x22] @ concat (map escape_char s) @ [CHR 0x22]"

definition newline_indent :: "nat \<Rightarrow> string" where
  "newline_indent lvl = CHR 0x0A # replicate (2 * lvl) CHR '' ''"

fun encode :: "nat \<Rightarrow> json \<Rightarrow> string" where
  "encode lvl (JString s) = encode_string s"
| "encode lvl (JArray xs) =
     (if xs = [] then ''[]''
      else ''['' @ newline_indent (lvl + 1)
           @ join ('','' @ newline_indent (lvl + 1)) (map (encode (lvl + 1)) xs)
           @ newline_indent lvl @ '']'')"
| "encode lvl (JObject kvs) =
     (if kvs = [] then ''{}''
      else ''{'' @ newline_indent (lvl + 1)
           @ join ('','' @ newline_indent (lvl + 1))
               (map (\<lambda>kv. encode_string (fst kv) @ '': '' @ encode (lvl + 1) (snd kv)) kvs)
           @ newline_indent lvl @ ''}'')"

definition json_dumps :: "json \<Rightarrow> string" where
  "json_dumps v = encode 0 v"

text \<open>
  \<open>save_movies_to_json_file\<close>: the file is opened and written, then the line is
  printed.  Nothing in the function catches a failure of the file.  After a failure
  the table of files is left as it was: what a file holds that was opened and not
  written to the end is not modelled.
\<close>

definition save_movies_to_json_file ::
  "env \<Rightarrow> Movie list \<Rightarrow> string \<Rightarrow> world \<Rightarrow> error option \<times> world" where
  "save_movies_to_json_file e movies filename w =
     (let movies_dict = JArray (map asdict movies);
          content = json_dumps movies_dict
      in case file_write e filename content of
           Some err \<Rightarrow> (Some err, w)
         | None \<Rightarrow>
             (None, print (''Data saved to '' @ filename)
                      (w\<lparr>files := AList.update filename content (files w)\<rparr>)))"

section \<open>The orchestrator\<close>

text \<open>The loop of \<open>main\<close> over the movies; an exception ends it.\<close>

fun enrich_all :: "env \<Rightarrow> Movie list \<Rightarrow> world \<Rightarrow> error option \<times> world \<times> Movie list" where
  "enrich_all e [] w = (None, w, [])"
| "enrich_all e (movie # rest) w =
     (let w1 = print (''Enriching '' @ [CHR 0x27] @ title movie @ [CHR 0x27]
                      @ '' with daily showtimes...'') w
      in case enrich_movie_with_timings_for_dates e movie ''20250212'' 10 w1 of
           (Some err, w2, movie') \<Rightarrow> (Some err, w2, movie' # rest)
         | (None, w2, movie') \<Rightarrow>
             (case enrich_all e rest w2 of
                (r, w3, rest') \<Rightarrow> (r, w3, movie' # rest')))"

definition whatson_url :: string where
  "whatson_url = BASE_URL @ ''/movies/whatson''"

text \<open>The body of the \<open>try\<close> of \<open>main\<close>; its result is the exception that leaves it.\<close>

definition main_try :: "env \<Rightarrow> world \<Rightarrow> error option \<times> world" where
  "main_try e w =
     (case fetch_page e whatson_url w of
        (Inl err, w1) \<Rightarrow> (Some err, w1)
      | (Inr html, w1) \<Rightarrow>
          (case parse_movies e html of
             Inl err \<Rightarrow> (Some err, w1)
           | Inr movies \<Rightarrow>
               (let w2 = print (''Found '' @ str_nat (length movies) @ '' movies.'' @ [CHR 0x0A]) w1
                in case enrich_all e movies w2 of
                     (Some err, w3, movies') \<Rightarrow> (Some err, w3)
                   | (None, w3, movies') \<Rightarrow>
                       save_movies_to_json_file e movies' ''movies.json'' w3)))"

text \<open>
  \<open>main\<close>: the \<open>try\<close> with its handler \<open>except Exception as e\<close>, which prints the
  exception.  The first component of the result is the exception that leaves \<open>main\<close>.
\<close>

definition main :: "env \<Rightarrow> world \<Rightarrow> error option \<times> world" where
  "main e w =
     (let w0 = print (''Fetching movie listings from: '' @ whatson_url) w
      in case main_try e w0 of
           (Some err, w1) \<Rightarrow> (None, print (''Error fetching movie data: '' @ message err) w1)
         | (None, w1) \<Rightarrow> (None, w1))"

section \<open>Reading the export back\<close>





















section \<open>Notions used to state the properties\<close>

text \<open>
  The time pattern as the specification words it: a one or two digit hour, a colon,
  a two digit minute, and nothing else.
\<close>

definition is_time_token :: "string \<Rightarrow> bool" where
  "is_time_token t =
     (case t of
        [h, c, m1, m2] \<Rightarrow> is_digit h \<and> c = CHR '':'' \<and> is_digit m1 \<and> is_digit m2
      | [h1, h2, c, m1, m2] \<Rightarrow>
          is_digit h1 \<and> is_digit h2 \<and> c = CHR '':'' \<and> is_digit m1 \<and> is_digit m2
      | _ \<Rightarrow> False)"

text \<open>What one round of the loop over the time entries adds to \<open>timings\<close>.\<close>

definition entry_tokens :: "node \<Rightarrow> string list" where
  "entry_tokens time_li =
     (let time_text = time_text_of time_li; found_times = findall_time time_text
      in if found_times \<noteq> [] then found_times
         else if time_text \<noteq> [] then [time_text] else [])"

text \<open>The nodes below a node.\<close>

definition nodes_below :: "node \<Rightarrow> node set" where
  "nodes_below t = fst ` set (descendants t)"

text \<open>
  The reading of the specification that the list of a heading is its immediately
  following sibling: the first tag after the heading (strings between the two do not
  count), when that tag is the list.
\<close>

definition is_tag :: "node \<Rightarrow> bool" where
  "is_tag t = (case t of Tag _ _ _ \<Rightarrow> True | _ \<Rightarrow> False)"

definition immediately_following_list :: "node list \<Rightarrow> node option" where
  "immediately_following_list later =
     (case filter is_tag later of
        [] \<Rightarrow> None
      | x # _ \<Rightarrow> if matches ''ol'' (Some ''showtimes'') x then Some x else None)"

text \<open>
  The reading of the specification for the language label: the prefix \<open>Language:\<close>
  is dropped when the text starts with it, and the rest is trimmed.
\<close>

definition strip_language_prefix :: "string \<Rightarrow> string" where
  "strip_language_prefix text =
     strip (if prefix ''Language:'' text then drop (length ''Language:'') text else text)"

text \<open>
  A run of the range enricher that starts in the world \<open>w\<close> requests, on day \<open>i\<close>, the
  URL \<open>day_url\<close>; by then it has requested the URLs of the days before.  \<open>day_outcome\<close>
  is what the request and the parse of day \<open>i\<close> give in such a run, and \<open>day_item\<close> is
  the key and the value the run stores for that day.
\<close>

definition day_url :: "Movie \<Rightarrow> date \<Rightarrow> nat \<Rightarrow> string" where
  "day_url movie start i = detail_url_of movie (add_days start i)"

definition day_outcome :: "env \<Rightarrow> Movie \<Rightarrow> date \<Rightarrow> world \<Rightarrow> nat \<Rightarrow> error + place_dict" where
  "day_outcome e movie start w i =
     (case http_get e (requested w @ map (day_url movie start) [0..<i]) (day_url movie start i) of
        Inl err \<Rightarrow> Inl err
      | Inr detail_html \<Rightarrow> extract_showtimes e detail_html)"

definition day_item :: "env \<Rightarrow> Movie \<Rightarrow> date \<Rightarrow> world \<Rightarrow> nat \<Rightarrow> string \<times> day_entry" where
  "day_item e movie start w i =
     (strftime_Y_m_d (add_days start i),
      \<lparr>day_of_week = strftime_A (add_days start i),
       showtimes = (case day_outcome e movie start w i of Inr t \<Rightarrow> t | Inl err \<Rightarrow> [])\<rparr>)"

subsection \<open>Example inputs\<close>

text \<open>A detail page with one cinema, one experience and three time entries.\<close>

definition example_detail_soup :: node where
  "example_detail_soup =
     Tag ''[document]'' []
       [Tag ''div'' [(''class'', ''dates'')]
          [Tag ''h3'' [(''class'', ''highlight'')] [NavigableString ''Riyadh Park''],
           NavigableString '' '',
           Tag ''ol'' [(''class'', ''showtimes'')]
             [Tag ''li'' []
                [Tag ''strong'' [] [NavigableString ''Standard''],
                 Tag ''ol'' []
                   [Tag ''li'' [] [Tag ''a'' [] [NavigableString '' 2:15 PM '']],
                    Tag ''li'' [] [NavigableString ''Sold Out''],
                    Tag ''li'' [] [NavigableString ''10:00 12:30'']]]]]]"

text \<open>A page where the first heading is followed by a second heading, then by one list.\<close>

definition example_heading_a :: node where
  "example_heading_a = Tag ''h3'' [(''class'', ''highlight'')] [NavigableString ''Mall A'']"

definition example_heading_b :: node where
  "example_heading_b = Tag ''h3'' [(''class'', ''highlight'')] [NavigableString ''Mall B'']"

definition example_gap_list :: node where
  "example_gap_list =
     Tag ''ol'' [(''class'', ''showtimes'')]
       [Tag ''li'' []
          [Tag ''strong'' [] [NavigableString ''Standard''],
           Tag ''ol'' [] [Tag ''li'' [] [NavigableString ''2:15'']]]]"

definition example_gap_div :: node where
  "example_gap_div =
     Tag ''div'' [(''class'', ''dates'')] [example_heading_a, example_heading_b, example_gap_list]"

definition example_gap_soup :: node where
  "example_gap_soup = Tag ''[document]'' [] [example_gap_div]"









text \<open>Listing entries: three with a language label, one with no nested element at all.\<close>

definition example_language_p :: node where
  "example_language_p =
     Tag ''p'' [(''class'', ''language'')]
       [NavigableString ''Language: Arabic (Original Language: English)'']"

definition example_language_article :: node where
  "example_language_article =
     Tag ''article'' [(''class'', ''movie-summary''), (''data-slug'', ''dune'')]
       [example_language_p]"

definition example_plain_p :: node where
  "example_plain_p = Tag ''p'' [(''class'', ''language'')] [NavigableString '' Language: Arabic '']"

definition example_plain_article :: node where
  "example_plain_article =
     Tag ''article'' [(''class'', ''movie-summary''), (''data-slug'', ''dune'')] [example_plain_p]"

definition example_other_p :: node where
  "example_other_p = Tag ''p'' [(''class'', ''language'')] [NavigableString ''Arabic'']"

definition example_other_article :: node where
  "example_other_article =
     Tag ''article'' [(''class'', ''movie-summary''), (''data-slug'', ''dune'')] [example_other_p]"

definition example_bare_article :: node where
  "example_bare_article =
     Tag ''article''
       [(''class'', ''movie-summary''), (''data-slug'', ''dune''), (''data-title'', '' Dune '')] []"

definition example_listing_soup :: node where
  "example_listing_soup = Tag ''[document]'' [] [example_bare_article]"

definition example_listing_env :: env where
  "example_listing_env =
     \<lparr> http_get = (\<lambda>history url. Inr ''<html>''),
       html_parser = (\<lambda>html. Inr example_listing_soup),
       file_write = (\<lambda>name content. None) \<rparr>"

text \<open>
  A world in which nothing has happened yet, a movie, and surroundings in which the
  detail page of one day (2025-02-14) cannot be fetched.
\<close>

definition example_world :: world where
  "example_world = \<lparr>requested = [], console = [], files = []\<rparr>"

definition example_movie :: Movie where
  "example_movie =
     \<lparr>slug = ''dune'', identifier = ''HO00001'', title = ''Dune'', description = [],
      image_url = [], classification = ''PG'', language = ''English'', showtimes_url = [],
      timings = []\<rparr>"

definition example_env :: env where
  "example_env =
     \<lparr>http_get = (\<lambda>history url.
        if url = ''https://ksa.voxcinemas.com/movies/dune?d=20250214#showtimes''
        then Inl (FetchError ''503 Server Error'') else Inr ''<html>''),
      html_parser = (\<lambda>html. Inr example_detail_soup),
      file_write = (\<lambda>name content. None)\<rparr>"

definition example_no_slug_movie :: Movie where
  "example_no_slug_movie = example_movie\<lparr>slug := []\<rparr>"

text \<open>Surroundings with an empty listing page and a disk that is full.\<close>

definition example_empty_soup :: node where
  "example_empty_soup = Tag ''[document]'' [] []"

definition example_full_disk_env :: env where
  "example_full_disk_env =
     \<lparr>http_get = (\<lambda>history url. Inr ''<html>''),
      html_parser = (\<lambda>html. Inr example_empty_soup),
      file_write = (\<lambda>name content. Some (WriteError ''[Errno 28] No space left on device''))\<rparr>"



section \<open>The detail parser: proofs\<close>

text \<open>Every match of the time pattern has the form of a time.\<close>

lemma match_time_token: "match_time s = Some n \<Longrightarrow> is_time_token (take n s)"
  by (induction s rule: match_time.induct) (auto simp: is_time_token_def split: if_splits)

lemma findall_from_tokens: "t \<in> set (findall_from k pw s) \<Longrightarrow> is_time_token t"
proof (induction s arbitrary: k pw)
  case Nil
  then show ?case by simp
next
  case (Cons c cs)
  show ?case
  proof (cases "0 < k \<or> pw")
    case True
    with Cons show ?thesis by (auto split: if_splits)
  next
    case False
    show ?thesis
    proof (cases "match_time (c # cs)")
      case None
      with False Cons show ?thesis by auto
    next
      case (Some n)
      with False Cons.prems have "t = take n (c # cs) \<or> t \<in> set (findall_from (n - 1) (is_word c) cs)"
        by auto
      then show ?thesis using match_time_token [OF Some] Cons.IH by auto
    qed
  qed
qed

lemma findall_time_tokens: "t \<in> set (findall_time s) \<Longrightarrow> is_time_token t"
  unfolding findall_time_def by (rule findall_from_tokens)

lemma collect_times_concat: "collect_times lis acc = acc @ concat (map entry_tokens lis)"
  by (induction lis arbitrary: acc) (auto simp: entry_tokens_def Let_def)

text \<open>
  What the loops store comes from the page: every value of the result is built from
  a node below the root.
\<close>

lemma set_update_cases:
  "(a, b) \<in> set (AList.update k v al) \<Longrightarrow> (a, b) = (k, v) \<or> (a, b) \<in> set al"
  by (induction al) (auto split: if_splits)

lemma descendants_trans:
  "(x, xs) \<in> set (descendants t) \<Longrightarrow> (y, ys) \<in> set (descendants x) \<Longrightarrow> (y, ys) \<in> set (descendants t)"
  "(x, xs) \<in> set (walk ts) \<Longrightarrow> (y, ys) \<in> set (descendants x) \<Longrightarrow> (y, ys) \<in> set (walk ts)"
  by (induction t and ts rule: descendants_walk.induct) auto

lemma nodes_below_trans: "x \<in> nodes_below t \<Longrightarrow> y \<in> nodes_below x \<Longrightarrow> y \<in> nodes_below t"
  unfolding nodes_below_def using descendants_trans(1) by fastforce

lemma later_sibling_below:
  "(x, xs) \<in> set (descendants t) \<Longrightarrow> y \<in> set xs \<Longrightarrow> \<exists>ys. (y, ys) \<in> set (descendants t)"
  "(x, xs) \<in> set (walk ts) \<Longrightarrow> y \<in> set xs \<Longrightarrow> \<exists>ys. (y, ys) \<in> set (walk ts)"
proof (induction t and ts rule: descendants_walk.induct)
  case (5 c cs)
  have mem: "\<And>z. z \<in> set cs \<Longrightarrow> \<exists>zs. (z, zs) \<in> set (walk cs)"
  proof -
    fix z show "z \<in> set cs \<Longrightarrow> \<exists>zs. (z, zs) \<in> set (walk cs)"
      by (induction cs) auto
  qed
  from 5 show ?case using mem by fastforce
qed auto

lemma find_all_below: "x \<in> set (find_all name cls t) \<Longrightarrow> x \<in> nodes_below t"
  by (auto simp: find_all_def find_all_ctx_def nodes_below_def)

lemma find_first_below: "find_first name cls t = Some x \<Longrightarrow> x \<in> nodes_below t"
  using find_all_below [of x name cls t]
  by (auto simp: find_first_def split: list.splits)

lemma child_below: "x \<in> set (children t) \<Longrightarrow> x \<in> nodes_below t"
proof (cases t)
  case (Tag n a cs)
  have "x \<in> set cs \<Longrightarrow> \<exists>xs. (x, xs) \<in> set (walk cs)" by (induction cs) auto
  then show "x \<in> set (children t) \<Longrightarrow> x \<in> nodes_below t"
    using Tag by (force simp: children_def nodes_below_def)
qed (auto simp: children_def)

lemma find_all_children_below: "x \<in> set (find_all_children name cls t) \<Longrightarrow> x \<in> nodes_below t"
  by (auto simp: find_all_children_def child_below)

lemma find_next_sibling_mem: "find_next_sibling name cls later = Some x \<Longrightarrow> x \<in> set later"
  unfolding find_next_sibling_def by (auto simp: find_Some_iff)

lemma collect_experiences_mem:
  "(k, v) \<in> set (collect_experiences lis acc) \<Longrightarrow>
   (k, v) \<in> set acc \<or>
   (\<exists>li \<in> set lis. \<exists>nested_ol. find_first ''ol'' None li = Some nested_ol
        \<and> v = collect_times (find_all ''li'' None nested_ol) [])"
proof (induction lis arbitrary: acc)
  case Nil
  then show ?case by simp
next
  case (Cons li rest)
  show ?case
  proof (cases "find_first ''strong'' None li")
    case None
    with Cons show ?thesis by force
  next
    case (Some strong_tag)
    show ?thesis
    proof (cases "find_first ''ol'' None li")
      case None
      with Some Cons show ?thesis by force
    next
      case (Some nested_ol)
      note ol = this
      from Cons.prems \<open>find_first ''strong'' None li = Some strong_tag\<close> ol
      have "(k, v) \<in> set (collect_experiences rest
              (AList.update (get_text '' '' strong_tag)
                 (collect_times (find_all ''li'' None nested_ol) []) acc))"
        by simp
      from Cons.IH [OF this] show ?thesis
        using ol set_update_cases by fastforce
    qed
  qed
qed

lemma collect_places_mem:
  "(p, exps) \<in> set (collect_places hs acc) \<Longrightarrow>
   (p, exps) \<in> set acc \<or>
   (\<exists>(h, later) \<in> set hs. \<exists>showtimes_ol.
        find_next_sibling ''ol'' (Some ''showtimes'') later = Some showtimes_ol
        \<and> exps = collect_experiences (find_all_children ''li'' None showtimes_ol) [])"
proof (induction hs arbitrary: acc)
  case Nil
  then show ?case by simp
next
  case (Cons x rest)
  obtain h later where x: "x = (h, later)" by (cases x)
  show ?case
  proof (cases "find_next_sibling ''ol'' (Some ''showtimes'') later")
    case None
    with Cons x show ?thesis by force
  next
    case (Some showtimes_ol)
    with Cons.prems x
    have "(p, exps) \<in> set (collect_places rest
            (AList.update (get_text '' '' h)
               (collect_experiences (find_all_children ''li'' None showtimes_ol) []) acc))"
      by simp
    from Cons.IH [OF this] show ?thesis
      using Some x set_update_cases by fastforce
  qed
qed

text \<open>
  Claim C3.  Every list of times in the result of \<open>extract_showtimes\<close> comes from one
  nested list of the page, and is the chain, in the order of the entries, of what each
  entry adds.  The text of an entry is the text of the link inside it when there is a
  link, and the text of the entry itself otherwise.  When the time pattern matches in
  that text, the entry adds all the matches, in order, and each of them has the form
  \<open>H:MM\<close> or \<open>HH:MM\<close>; when it does not match, the entry adds the text itself, unless
  it is empty.  So every time in the result has that form or is the text of an entry
  in which the pattern was not found.
\<close>

theorem extract_showtimes_time_tokens:
  assumes "(place, exps) \<in> set (extract_showtimes_soup soup)"
    and "(experience, tms) \<in> set exps"
  shows "\<exists>nested_ol \<in> nodes_below soup.
           tms = concat (map entry_tokens (find_all ''li'' None nested_ol))
           \<and> (\<forall>time_li \<in> set (find_all ''li'' None nested_ol).
                 let time_text = (case find_first ''a'' None time_li of
                                    Some a_tag \<Rightarrow> get_text '' '' a_tag
                                  | None \<Rightarrow> get_text '' '' time_li);
                     found_times = findall_time time_text
                 in (\<forall>t \<in> set found_times. is_time_token t)
                    \<and> (found_times \<noteq> [] \<longrightarrow> entry_tokens time_li = found_times)
                    \<and> (found_times = [] \<longrightarrow>
                          entry_tokens time_li = (if time_text = [] then [] else [time_text])))
           \<and> (\<forall>t \<in> set tms. is_time_token t \<or>
                 (\<exists>time_li \<in> set (find_all ''li'' None nested_ol).
                     findall_time (time_text_of time_li) = [] \<and> t = time_text_of time_li))"
proof -
  from assms(1) obtain dates_div where dd: "find_first ''div'' (Some ''dates'') soup = Some dates_div"
    and mem: "(place, exps) \<in> set (collect_places (find_all_ctx ''h3'' (Some ''highlight'') dates_div) [])"
    by (cases "find_first ''div'' (Some ''dates'') soup") (auto simp: extract_showtimes_soup_def)
  from collect_places_mem [OF mem] obtain h later showtimes_ol
    where h: "(h, later) \<in> set (find_all_ctx ''h3'' (Some ''highlight'') dates_div)"
      and sib: "find_next_sibling ''ol'' (Some ''showtimes'') later = Some showtimes_ol"
      and exps: "exps = collect_experiences (find_all_children ''li'' None showtimes_ol) []"
    by auto
  from assms(2) exps
  have "(experience, tms) \<in> set (collect_experiences (find_all_children ''li'' None showtimes_ol) [])"
    by simp
  from collect_experiences_mem [OF this]
  obtain li nested_ol where li: "li \<in> set (find_all_children ''li'' None showtimes_ol)"
    and nested: "find_first ''ol'' None li = Some nested_ol"
    and tms: "tms = collect_times (find_all ''li'' None nested_ol) []"
    by fastforce
  have "(h, later) \<in> set (descendants dates_div)"
    using h by (simp add: find_all_ctx_def)
  from later_sibling_below(1) [OF this find_next_sibling_mem [OF sib]]
  have "showtimes_ol \<in> nodes_below dates_div"
    unfolding nodes_below_def by force
  then have "showtimes_ol \<in> nodes_below soup"
    using find_first_below [OF dd] nodes_below_trans by blast
  then have "li \<in> nodes_below soup"
    using find_all_children_below [OF li] nodes_below_trans by blast
  then have below: "nested_ol \<in> nodes_below soup"
    using find_first_below [OF nested] nodes_below_trans by blast
  have eq: "tms = concat (map entry_tokens (find_all ''li'' None nested_ol))"
    using tms by (simp add: collect_times_concat)
  have entries: "\<forall>time_li \<in> set (find_all ''li'' None nested_ol).
                 let time_text = (case find_first ''a'' None time_li of
                                    Some a_tag \<Rightarrow> get_text '' '' a_tag
                                  | None \<Rightarrow> get_text '' '' time_li);
                     found_times = findall_time time_text
                 in (\<forall>t \<in> set found_times. is_time_token t)
                    \<and> (found_times \<noteq> [] \<longrightarrow> entry_tokens time_li = found_times)
                    \<and> (found_times = [] \<longrightarrow>
                          entry_tokens time_li = (if time_text = [] then [] else [time_text]))"
    by (auto simp: Let_def entry_tokens_def time_text_of_def findall_time_tokens)
  have toks: "\<forall>t \<in> set tms. is_time_token t \<or>
                 (\<exists>time_li \<in> set (find_all ''li'' None nested_ol).
                     findall_time (time_text_of time_li) = [] \<and> t = time_text_of time_li)"
  proof
    fix t assume "t \<in> set tms"
    then obtain time_li where tl: "time_li \<in> set (find_all ''li'' None nested_ol)"
      and t: "t \<in> set (entry_tokens time_li)"
      using eq by auto
    show "is_time_token t \<or>
                 (\<exists>time_li \<in> set (find_all ''li'' None nested_ol).
                     findall_time (time_text_of time_li) = [] \<and> t = time_text_of time_li)"
    proof (cases "findall_time (time_text_of time_li) = []")
      case True
      with t have "t = time_text_of time_li"
        by (auto simp: entry_tokens_def Let_def split: if_splits)
      with True tl show ?thesis by blast
    next
      case False
      with t have "t \<in> set (findall_time (time_text_of time_li))"
        by (auto simp: entry_tokens_def Let_def)
      then show ?thesis using findall_time_tokens by blast
    qed
  qed
  from below eq entries toks show ?thesis by blast
qed

theorem extract_showtimes_time_tokens_witness:
  "(''Riyadh Park'', [(''Standard'', [''2:15'', ''Sold Out'', ''10:00'', ''12:30''])])
     \<in> set (extract_showtimes_soup example_detail_soup)
   \<and> (\<exists>nested_ol \<in> nodes_below example_detail_soup.
         [''2:15'', ''Sold Out'', ''10:00'', ''12:30'']
           = concat (map entry_tokens (find_all ''li'' None nested_ol))
         \<and> (\<forall>t \<in> set [''2:15'', ''Sold Out'', ''10:00'', ''12:30'']. is_time_token t \<or>
               (\<exists>time_li \<in> set (find_all ''li'' None nested_ol).
                   findall_time (time_text_of time_li) = [] \<and> t = time_text_of time_li)))"
proof -
  have ex: "extract_showtimes_soup example_detail_soup
              = [(''Riyadh Park'', [(''Standard'', [''2:15'', ''Sold Out'', ''10:00'', ''12:30''])])]"
    by code_simp
  have h1: "(''Riyadh Park'', [(''Standard'', [''2:15'', ''Sold Out'', ''10:00'', ''12:30''])])
              \<in> set (extract_showtimes_soup example_detail_soup)"
    by (simp add: ex)
  have h2: "(''Standard'', [''2:15'', ''Sold Out'', ''10:00'', ''12:30''])
              \<in> set [(''Standard'', [''2:15'', ''Sold Out'', ''10:00'', ''12:30''])]"
    by simp
  from extract_showtimes_time_tokens [OF h1 h2] h1 show ?thesis
    by blast
qed














lemma collect_places_keys:
  "fst ` set (collect_places hs acc)
     = fst ` set acc \<union>
       {get_text '' '' (fst x) | x. x \<in> set hs
           \<and> (\<exists>y \<in> set (snd x). matches ''ol'' (Some ''showtimes'') y)}"
proof (induction hs arbitrary: acc)
  case Nil
  then show ?case by simp
next
  case (Cons x rest)
  obtain h later where x: "x = (h, later)" by (cases x)
  show ?case
  proof (cases "find_next_sibling ''ol'' (Some ''showtimes'') later")
    case None
    then have "\<forall>y \<in> set later. \<not> matches ''ol'' (Some ''showtimes'') y"
      by (simp add: find_next_sibling_def find_None_iff)
    with None x Cons.IH [of acc] show ?thesis by auto
  next
    case (Some showtimes_ol)
    then have "\<exists>y \<in> set later. matches ''ol'' (Some ''showtimes'') y"
      by (auto simp: find_next_sibling_def find_Some_iff)
    with Some x
      Cons.IH [of "AList.update (get_text '' '' h)
                     (collect_experiences (find_all_children ''li'' None showtimes_ol) []) acc"]
    show ?thesis by (auto simp: dom_update)
  qed
qed

lemma find_next_sibling_first:
  assumes "\<forall>x \<in> set before. \<not> matches name cls x" and "matches name cls y"
  shows "find_next_sibling name cls (before @ y # after) = Some y"
  using assms unfolding find_next_sibling_def by (induction before) auto

text \<open>
  Claim C4, as the code has it.  The list of a heading is the first sibling after the
  heading that is an \<open>ol\<close> of class \<open>showtimes\<close>, wherever it stands among the later
  siblings.  A cinema name is in the result exactly when a heading with that name has
  such a sibling; a heading with none is passed over.
\<close>

theorem extract_showtimes_next_sibling_list:
  "(find_first ''div'' (Some ''dates'') soup = Some dates_div \<longrightarrow>
      (p \<in> fst ` set (extract_showtimes_soup soup) \<longleftrightarrow>
         (\<exists>(h, later) \<in> set (find_all_ctx ''h3'' (Some ''highlight'') dates_div).
             get_text '' '' h = p \<and> (\<exists>x \<in> set later. matches ''ol'' (Some ''showtimes'') x))))
   \<and> ((\<forall>x \<in> set before. \<not> matches ''ol'' (Some ''showtimes'') x)
        \<and> matches ''ol'' (Some ''showtimes'') showtimes_ol \<longrightarrow>
       collect_places ((h, before @ showtimes_ol # after) # rest) acc
         = collect_places rest
             (AList.update (get_text '' '' h)
                (collect_experiences (find_all_children ''li'' None showtimes_ol) []) acc))
   \<and> ((\<forall>x \<in> set later. \<not> matches ''ol'' (Some ''showtimes'') x) \<longrightarrow>
       collect_places ((h, later) # rest) acc = collect_places rest acc)"
proof (intro conjI impI)
  assume "find_first ''div'' (Some ''dates'') soup = Some dates_div"
  then have "extract_showtimes_soup soup
               = collect_places (find_all_ctx ''h3'' (Some ''highlight'') dates_div) []"
    by (simp add: extract_showtimes_soup_def)
  then show "p \<in> fst ` set (extract_showtimes_soup soup) \<longleftrightarrow>
         (\<exists>(h, later) \<in> set (find_all_ctx ''h3'' (Some ''highlight'') dates_div).
             get_text '' '' h = p \<and> (\<exists>x \<in> set later. matches ''ol'' (Some ''showtimes'') x))"
    by (simp add: collect_places_keys) force
next
  assume "(\<forall>x \<in> set before. \<not> matches ''ol'' (Some ''showtimes'') x)
        \<and> matches ''ol'' (Some ''showtimes'') showtimes_ol"
  then have "find_next_sibling ''ol'' (Some ''showtimes'') (before @ showtimes_ol # after)
               = Some showtimes_ol"
    using find_next_sibling_first by blast
  then show "collect_places ((h, before @ showtimes_ol # after) # rest) acc
         = collect_places rest
             (AList.update (get_text '' '' h)
                (collect_experiences (find_all_children ''li'' None showtimes_ol) []) acc)"
    by simp
next
  assume "\<forall>x \<in> set later. \<not> matches ''ol'' (Some ''showtimes'') x"
  then have "find_next_sibling ''ol'' (Some ''showtimes'') later = None"
    by (simp add: find_next_sibling_def find_None_iff)
  then show "collect_places ((h, later) # rest) acc = collect_places rest acc"
    by simp
qed

text \<open>
  The claim as worded fails: here the sibling right after the first heading is the
  second heading, not a list, and still the first cinema is in the result, with the
  list that follows the second heading.
\<close>

theorem extract_showtimes_next_sibling_list_counterexample:
  "find_first ''div'' (Some ''dates'') example_gap_soup = Some example_gap_div
   \<and> hd (find_all_ctx ''h3'' (Some ''highlight'') example_gap_div)
       = (example_heading_a, [example_heading_b, example_gap_list])
   \<and> immediately_following_list [example_heading_b, example_gap_list] = None
   \<and> map_of (extract_showtimes_soup example_gap_soup) ''Mall A''
       = Some [(''Standard'', [''2:15''])]"
  by code_simp

theorem extract_showtimes_next_sibling_list_witness:
  "find_first ''div'' (Some ''dates'') example_gap_soup = Some example_gap_div
   \<and> (''Mall A'' \<in> fst ` set (extract_showtimes_soup example_gap_soup) \<longleftrightarrow>
         (\<exists>(h, later) \<in> set (find_all_ctx ''h3'' (Some ''highlight'') example_gap_div).
             get_text '' '' h = ''Mall A''
             \<and> (\<exists>x \<in> set later. matches ''ol'' (Some ''showtimes'') x)))
   \<and> \<not> matches ''ol'' (Some ''showtimes'') example_heading_b
   \<and> matches ''ol'' (Some ''showtimes'') example_gap_list
   \<and> collect_places [(example_heading_a, [example_heading_b] @ example_gap_list # [])] []
       = [(''Mall A'', [(''Standard'', [''2:15''])])]
   \<and> collect_places [(example_heading_a, [example_heading_b])] [] = []"
proof -
  have f1: "find_first ''div'' (Some ''dates'') example_gap_soup = Some example_gap_div"
    by code_simp
  have f2: "\<not> matches ''ol'' (Some ''showtimes'') example_heading_b"
    by code_simp
  have f3: "matches ''ol'' (Some ''showtimes'') example_gap_list"
    by code_simp
  have f4: "get_text '' '' example_heading_a = ''Mall A''"
    by code_simp
  have f5: "collect_experiences (find_all_children ''li'' None example_gap_list) []
              = [(''Standard'', [''2:15''])]"
    by code_simp
  note t = extract_showtimes_next_sibling_list
         [where soup = example_gap_soup and dates_div = example_gap_div and p = "''Mall A''"
            and before = "[example_heading_b]" and showtimes_ol = example_gap_list
            and after = "[]" and h = example_heading_a and rest = "[]" and acc = "[]"
            and later = "[example_heading_b]"]
  from t f1 f2 f3 show ?thesis
    by (simp add: f4 f5)
qed

section \<open>The listing parser: proofs\<close>

lemma replace_from_skip: "replace_from old new k s = replace_from old new 0 (drop k s)"
proof (induction s arbitrary: k)
  case Nil
  then show ?case by simp
next
  case (Cons c cs)
  show ?case
  proof (cases k)
    case 0
    then show ?thesis by simp
  next
    case (Suc j)
    then show ?thesis using Cons.IH [of j] by simp
  qed
qed

lemma replace_from_absent:
  "old \<noteq> [] \<Longrightarrow> \<not> contains old s \<Longrightarrow> replace_from old new 0 s = s"
  by (induction s) auto

lemma replace_from_prefix:
  assumes "old \<noteq> []"
  shows "replace_from old new 0 (old @ rest) = new @ replace_from old new 0 rest"
proof -
  from assms obtain c cs where old: "old = c # cs" by (cases old) auto
  have "replace_from old new 0 (old @ rest) = new @ replace_from old new (length cs) (cs @ rest)"
    by (simp add: old)
  also have "replace_from old new (length cs) (cs @ rest) = replace_from old new 0 rest"
    by (subst replace_from_skip) simp
  finally show ?thesis .
qed

lemma find_all_sub:
  assumes "x \<in> nodes_below t"
  shows "set (find_all name cls x) \<subseteq> set (find_all name cls t)"
proof
  fix y assume "y \<in> set (find_all name cls x)"
  then obtain ys where y: "(y, ys) \<in> set (descendants x)" and m: "matches name cls y"
    by (auto simp: find_all_def find_all_ctx_def)
  from assms obtain xs where "(x, xs) \<in> set (descendants t)"
    by (auto simp: nodes_below_def)
  from descendants_trans(1) [OF this y] m show "y \<in> set (find_all name cls t)"
    by (force simp: find_all_def find_all_ctx_def)
qed

lemma find_first_None_iff: "find_first name cls t = None \<longleftrightarrow> find_all name cls t = []"
  by (simp add: find_first_def split: list.splits)

lemma find_first_None_below:
  assumes "find_first name cls t = None" and "x \<in> nodes_below t"
  shows "find_first name cls x = None"
  using assms find_all_sub [OF assms(2), of name cls] by (simp add: find_first_None_iff)

text \<open>
  Claim C5, as the code has it.  When an entry has a language label, the \<open>language\<close>
  field is the text of the label with every occurrence of \<open>Language:\<close> removed, not
  only one at the front, and then trimmed.  So a text without the word is kept as it
  is (trimmed), and a text that starts with the word and does not hold it again gives
  the trimmed rest.
\<close>

theorem parse_article_language:
  "find_first ''p'' (Some ''language'') article = Some language_p \<longrightarrow>
     language (parse_article article) = strip (replace ''Language:'' [] (get_text [] language_p))
     \<and> (\<not> contains ''Language:'' (get_text [] language_p) \<longrightarrow>
          language (parse_article article) = strip (get_text [] language_p))
     \<and> (get_text [] language_p = ''Language:'' @ rest \<and> \<not> contains ''Language:'' rest \<longrightarrow>
          language (parse_article article) = strip rest)"
proof (intro impI conjI)
  assume a: "find_first ''p'' (Some ''language'') article = Some language_p"
  then show l: "language (parse_article article)
                  = strip (replace ''Language:'' [] (get_text [] language_p))"
    by (simp add: parse_article_def)
  {
    assume "\<not> contains ''Language:'' (get_text [] language_p)"
    then have "replace ''Language:'' [] (get_text [] language_p) = get_text [] language_p"
      unfolding replace_def using replace_from_absent [of "''Language:''"] by simp
    with l show "language (parse_article article) = strip (get_text [] language_p)" by simp
  }
  {
    assume b: "get_text [] language_p = ''Language:'' @ rest \<and> \<not> contains ''Language:'' rest"
    then have "replace ''Language:'' [] (get_text [] language_p)
                 = replace_from ''Language:'' [] 0 rest"
      unfolding replace_def using replace_from_prefix [of "''Language:''" "[]" rest] by simp
    also have "\<dots> = rest"
      using b replace_from_absent [of "''Language:''" rest] by simp
    finally show "language (parse_article article) = strip rest" using l by simp
  }
qed

text \<open>
  The claim as worded fails when the word stands again behind the prefix: the text
  after the prefix is not kept unchanged.
\<close>

theorem parse_article_language_counterexample:
  "find_first ''p'' (Some ''language'') example_language_article = Some example_language_p
   \<and> get_text [] example_language_p = ''Language: Arabic (Original Language: English)''
   \<and> strip_language_prefix (get_text [] example_language_p)
       = ''Arabic (Original Language: English)''
   \<and> language (parse_article example_language_article) = ''Arabic (Original  English)''"
  by code_simp

theorem parse_article_language_witness:
  "find_first ''p'' (Some ''language'') example_plain_article = Some example_plain_p
   \<and> get_text [] example_plain_p = ''Language:'' @ '' Arabic''
   \<and> \<not> contains ''Language:'' '' Arabic''
   \<and> language (parse_article example_plain_article) = ''Arabic''
   \<and> find_first ''p'' (Some ''language'') example_other_article = Some example_other_p
   \<and> get_text [] example_other_p = ''Arabic''
   \<and> \<not> contains ''Language:'' ''Arabic''
   \<and> language (parse_article example_other_article) = ''Arabic''"
proof -
  have f1: "find_first ''p'' (Some ''language'') example_plain_article = Some example_plain_p"
    by code_simp
  have f2: "get_text [] example_plain_p = ''Language:'' @ '' Arabic''"
    by code_simp
  have f3: "\<not> contains ''Language:'' '' Arabic''"
    by code_simp
  have f4: "strip '' Arabic'' = ''Arabic''"
    by code_simp
  from parse_article_language [of example_plain_article example_plain_p "'' Arabic''"] f1 f2 f3
  have c1: "language (parse_article example_plain_article) = strip '' Arabic''"
    by blast
  have k1: "find_first ''p'' (Some ''language'') example_other_article = Some example_other_p"
    by code_simp
  have k2: "get_text [] example_other_p = ''Arabic''"
    by code_simp
  have k3: "\<not> contains ''Language:'' ''Arabic''"
    by code_simp
  have k4: "strip ''Arabic'' = ''Arabic''"
    by code_simp
  have k3': "\<not> contains ''Language:'' (get_text [] example_other_p)"
    by (simp only: k2 k3 not_False_eq_True)
  from parse_article_language [of example_other_article example_other_p "[]"] k1 k3'
  have "language (parse_article example_other_article) = strip (get_text [] example_other_p)"
    by blast
  then have c2: "language (parse_article example_other_article) = strip ''Arabic''"
    by (simp only: k2)
  from f1 f2 f3 c1 f4 k1 k2 k3 c2 k4 show ?thesis by simp
qed

text \<open>
  Claim C6.  Once the HTML parser has returned a tree, \<open>parse_movies\<close> returns a
  list, one record for each entry, and raises nothing.  An entry without description
  element, without classification element, without language element, without image
  or without a link whose text contains \<open>Showtimes\<close> has the empty string in the
  field concerned.
\<close>

theorem parse_movies_missing_fields:
  "(html_parser e html = Inr soup \<longrightarrow>
      parse_movies e html
        = Inr (map parse_article (find_all ''article'' (Some ''movie-summary'') soup)))
   \<and> (find_first ''p'' (Some ''movie-description'') article = None \<longrightarrow>
        description (parse_article article) = [])
   \<and> (find_first ''span'' (Some ''classification'') article = None \<longrightarrow>
        classification (parse_article article) = [])
   \<and> (find_first ''p'' (Some ''language'') article = None \<longrightarrow>
        language (parse_article article) = [])
   \<and> (find_first ''img'' None article = None \<longrightarrow> image_url (parse_article article) = [])
   \<and> (find_showtimes_a article = None \<longrightarrow> showtimes_url (parse_article article) = [])"
proof (intro conjI impI)
  assume "find_first ''img'' None article = None"
  then have "\<And>a_tag. find_first ''a'' None article = Some a_tag \<Longrightarrow>
               find_first ''img'' None a_tag = None"
    using find_first_None_below find_first_below by blast
  then show "image_url (parse_article article) = []"
    by (auto simp: parse_article_def split: option.splits)
qed (simp_all add: parse_movies_def parse_movies_soup_def parse_article_def)


theorem parse_movies_missing_fields_witness:
  "html_parser example_listing_env ''<html>'' = Inr example_listing_soup
   \<and> find_all ''article'' (Some ''movie-summary'') example_listing_soup = [example_bare_article]
   \<and> parse_movies example_listing_env ''<html>'' = Inr [parse_article example_bare_article]
   \<and> find_first ''p'' (Some ''movie-description'') example_bare_article = None
   \<and> find_first ''span'' (Some ''classification'') example_bare_article = None
   \<and> find_first ''p'' (Some ''language'') example_bare_article = None
   \<and> find_first ''img'' None example_bare_article = None
   \<and> find_showtimes_a example_bare_article = None
   \<and> description (parse_article example_bare_article) = []
   \<and> classification (parse_article example_bare_article) = []
   \<and> language (parse_article example_bare_article) = []
   \<and> image_url (parse_article example_bare_article) = []
   \<and> showtimes_url (parse_article example_bare_article) = []
   \<and> title (parse_article example_bare_article) = ''Dune''"
proof -
  have f0: "html_parser example_listing_env ''<html>'' = Inr example_listing_soup"
    by (simp add: example_listing_env_def)
  have f1: "find_all ''article'' (Some ''movie-summary'') example_listing_soup
              = [example_bare_article]"
    by code_simp
  have f2: "find_first ''p'' (Some ''movie-description'') example_bare_article = None"
    by code_simp
  have f3: "find_first ''span'' (Some ''classification'') example_bare_article = None"
    by code_simp
  have f4: "find_first ''p'' (Some ''language'') example_bare_article = None"
    by code_simp
  have f5: "find_first ''img'' None example_bare_article = None"
    by code_simp
  have f6: "find_showtimes_a example_bare_article = None"
    by code_simp
  have f7: "title (parse_article example_bare_article) = ''Dune''"
    by code_simp
  note t = parse_movies_missing_fields
             [of example_listing_env "''<html>''" example_listing_soup example_bare_article]
  from t f0 f1 f2 f3 f4 f5 f6 f7 show ?thesis by simp
qed

section \<open>Calendar dates: proofs\<close>


text \<open>A date that \<open>strptime\<close> returns is a date of the calendar.\<close>

lemma is_digit_val: "is_digit c \<Longrightarrow> digit_val c \<le> 9"
  by (auto simp: is_digit_def digit_val_def Let_def)

lemma month_alts_range: "(m, r) \<in> set (month_alts s) \<Longrightarrow> 1 \<le> m \<and> m \<le> 12"
  by (auto simp: month_alts_def digit_val_def split: list.splits if_splits)

lemma day_alts_range: "(d, r) \<in> set (day_alts s) \<Longrightarrow> 1 \<le> d \<and> d \<le> 31"
  by (auto simp: day_alts_def digit_val_def is_digit_def Let_def split: list.splits if_splits)

lemma strptime_valid:
  assumes "strptime_Ymd s = Inr d"
  shows "valid_date d"
proof -
  from assms obtain y1 y2 y3 y4 rest where s: "s = y1 # y2 # y3 # y4 # rest"
    by (auto simp: strptime_Ymd_def split: list.splits)
  let ?alts = "concat (map (\<lambda>(m, r). map (\<lambda>(d, r'). (m, d, r')) (day_alts r)) (month_alts rest))"
  let ?y = "1000 * digit_val y1 + 100 * digit_val y2 + 10 * digit_val y3 + digit_val y4"
  from assms s have dig: "is_digit y1 \<and> is_digit y2 \<and> is_digit y3 \<and> is_digit y4"
    by (auto simp: strptime_Ymd_def split: if_splits)
  have "?alts \<noteq> []"
  proof
    assume e: "?alts = []"
    from assms show False
      unfolding strptime_Ymd_def s using dig e by (simp del: concat_eq_Nil_conv)
  qed
  then obtain m dd r' tl where alts: "?alts = (m, dd, r') # tl"
    by (cases ?alts) auto
  from assms have "(let y = ?y
                    in if r' \<noteq> [] then Inl (ValueError (''unconverted data remains: '' @ r'))
                       else if y < 1 then Inl (ValueError ''year 0 is out of range'')
                       else if days_in_month y m < dd
                         then Inl (ValueError ''day is out of range for month'')
                       else Inr \<lparr>year = y, month = m, day = dd\<rparr>) = Inr d"
    unfolding strptime_Ymd_def s using dig alts by (simp del: concat_eq_Nil_conv)
  then have d: "d = \<lparr>year = ?y, month = m, day = dd\<rparr>"
    and y1: "1 \<le> ?y" and dim: "dd \<le> days_in_month ?y m"
    by (auto simp: Let_def split: if_splits)
  have "(m, dd, r') \<in> set ?alts" using alts by simp
  then obtain r where "(m, r) \<in> set (month_alts rest)" and "(dd, r') \<in> set (day_alts r)"
    by auto
  then have m: "1 \<le> m \<and> m \<le> 12" and dd: "1 \<le> dd"
    using month_alts_range day_alts_range by blast+
  have "?y \<le> 9999"
    using dig is_digit_val [of y1] is_digit_val [of y2] is_digit_val [of y3] is_digit_val [of y4]
    by linarith
  with d y1 dim m dd show ?thesis by (simp add: valid_date_def)
qed

text \<open>Stepping the calendar keeps a date valid and never lowers the year.\<close>

lemma next_day_year_mono: "year d \<le> year (next_day d)"
  by (simp add: next_day_def)

lemma add_days_year_mono: "i \<le> j \<Longrightarrow> year (add_days d i) \<le> year (add_days d j)"
proof (induction j)
  case 0
  then show ?case by simp
next
  case (Suc j)
  show ?case
  proof (cases "i = Suc j")
    case True
    then show ?thesis by simp
  next
    case False
    with Suc have "year (add_days d i) \<le> year (add_days d j)" by simp
    also have "\<dots> \<le> year (add_days d (Suc j))" by (simp add: next_day_year_mono)
    finally show ?thesis .
  qed
qed

lemma days_in_month_pos: "Suc 0 \<le> days_in_month y m"
  by (simp add: days_in_month_def)

lemma next_day_valid:
  "valid_date d \<Longrightarrow> year (next_day d) \<le> 9999 \<Longrightarrow> valid_date (next_day d)"
  by (auto simp: valid_date_def next_day_def days_in_month_pos)

lemma add_days_valid:
  "valid_date d \<Longrightarrow> year (add_days d n) \<le> 9999 \<Longrightarrow> valid_date (add_days d n)"
proof (induction n)
  case 0
  then show ?case by simp
next
  case (Suc n)
  have "year (add_days d n) \<le> year (add_days d (Suc n))" by (simp add: next_day_year_mono)
  with Suc show ?case by (simp add: next_day_valid)
qed

text \<open>
  The day number grows by one with each step: within a month, from the last day of a
  month to the first of the next, and from 31 December to 1 January, where the
  length of the year (365 or 366 days) must match the leap year rule.
\<close>

lemma days_before_month_Suc:
  "1 \<le> m \<Longrightarrow> days_before_month y (Suc m) = days_before_month y m + days_in_month y m"
  by (simp add: days_before_month_def)

lemma days_before_month_12:
  "days_before_month y 12 + 31 = 365 + (if is_leap y then 1 else 0)"
  by (simp add: days_before_month_def days_in_month_def upt_rec)

lemma days_before_month_1: "days_before_month y (Suc 0) = 0"
  by (simp add: days_before_month_def)


lemma leap_step_arith:
  fixes n a b c :: nat
  assumes "b \<le> a" and "p400 \<longrightarrow> p100" and "p100 \<longrightarrow> p4"
  shows "Suc n * 365 + (if p4 then Suc a else a) - (if p100 then Suc b else b)
           + (if p400 then Suc c else c)
         = n * 365 + a - b + c + 365 + (if p4 \<and> (\<not> p100 \<or> p400) then 1 else 0)"
  using assms by (cases p4; cases p100; cases p400) auto

lemma days_before_year_Suc:
  assumes "1 \<le> y"
  shows "days_before_year (Suc y) = days_before_year y + 365 + (if is_leap y then 1 else 0)"
proof -
  obtain n where y: "y = Suc n" using assms by (cases y) auto
  have le: "n div 100 \<le> n div 4" by (rule div_le_mono2) simp_all
  have "(4::nat) dvd 100" and "(100::nat) dvd 400" by simp_all
  then have e1: "Suc n mod 100 mod 4 = Suc n mod 4" and e2: "Suc n mod 400 mod 100 = Suc n mod 100"
    by (simp_all add: mod_mod_cancel)
  have d1: "Suc n mod 100 = 0 \<longrightarrow> Suc n mod 4 = 0"
    using e1 by (metis mod_0)
  have d2: "Suc n mod 400 = 0 \<longrightarrow> Suc n mod 100 = 0"
    using e2 by (metis mod_0)
  have "days_before_year (Suc y)
          = Suc n * 365 + (if Suc n mod 4 = 0 then Suc (n div 4) else n div 4)
              - (if Suc n mod 100 = 0 then Suc (n div 100) else n div 100)
              + (if Suc n mod 400 = 0 then Suc (n div 400) else n div 400)"
    unfolding y days_before_year_def Let_def diff_Suc_1 by (simp only: div_Suc)
  also have "\<dots> = n * 365 + n div 4 - n div 100 + n div 400 + 365
                    + (if Suc n mod 4 = 0 \<and> (\<not> Suc n mod 100 = 0 \<or> Suc n mod 400 = 0) then 1 else 0)"
    by (rule leap_step_arith [OF le d2 d1])
  also have "\<dots> = days_before_year y + 365 + (if is_leap y then 1 else 0)"
    unfolding y days_before_year_def is_leap_def Let_def diff_Suc_1 by (rule refl)
  finally show ?thesis .
qed

lemma toordinal_next_day:
  assumes "valid_date d"
  shows "toordinal (next_day d) = toordinal d + 1"
proof (cases "day d < days_in_month (year d) (month d)")
  case True
  then show ?thesis by (simp add: next_day_def toordinal_def)
next
  case False
  with assms have last: "day d = days_in_month (year d) (month d)"
    by (simp add: valid_date_def)
  show ?thesis
  proof (cases "month d < 12")
    case True
    with assms False last show ?thesis
      using days_before_month_Suc [of "month d" "year d"]
      by (simp add: next_day_def toordinal_def valid_date_def)
  next
    case False
    with assms have m: "month d = 12" by (simp add: valid_date_def)
    with last have "day d = 31" by (simp add: days_in_month_def)
    with m assms \<open>\<not> day d < days_in_month (year d) (month d)\<close> show ?thesis
      using days_before_year_Suc [of "year d"] days_before_month_12 [of "year d"]
      by (simp add: next_day_def toordinal_def valid_date_def days_before_month_1)
  qed
qed

lemma toordinal_add_days:
  "valid_date d \<Longrightarrow> year (add_days d n) \<le> 9999 \<Longrightarrow> toordinal (add_days d n) = toordinal d + n"
proof (induction n)
  case 0
  then show ?case by simp
next
  case (Suc n)
  have y: "year (add_days d n) \<le> 9999"
    using Suc.prems(2) next_day_year_mono [of "add_days d n"] by simp
  then have "valid_date (add_days d n)" using Suc.prems(1) add_days_valid by blast
  then show ?case using Suc.IH [OF Suc.prems(1) y] by (simp add: toordinal_next_day)
qed

lemma weekday_add_days:
  "valid_date d \<Longrightarrow> year (add_days d n) \<le> 9999 \<Longrightarrow>
   weekday (add_days d n) = (weekday d + n) mod 7"
  by (simp add: weekday_def toordinal_add_days ac_simps mod_add_right_eq)


text \<open>
  The formats are injective on valid dates, so different dates give different keys;
  from the year 1000 on the year has four digits, and the formats are the ISO form
  and the compact form of the specification.
\<close>

lemma digit_char_val: "n < 10 \<Longrightarrow> digit_val (digit_char n) = n"
  by (simp add: digit_val_def digit_char_def)

lemma digit_char_inj: "digit_char a = digit_char b \<Longrightarrow> a < 10 \<Longrightarrow> b < 10 \<Longrightarrow> a = b"
  using digit_char_val by metis

lemma str_nat_value: "foldl (\<lambda>a c. 10 * a + digit_val c) 0 (str_nat n) = n"
proof (induction n rule: str_nat.induct)
  case (1 n)
  show ?case
  proof (cases "n < 10")
    case True
    then show ?thesis by (subst str_nat.simps) (simp add: digit_char_val)
  next
    case False
    with 1 show ?thesis by (subst str_nat.simps) (simp add: digit_char_val)
  qed
qed

lemma str_nat_inj: "str_nat a = str_nat b \<Longrightarrow> a = b"
  using str_nat_value by metis

lemma two_digits_inj: "two_digits a = two_digits b \<Longrightarrow> a < 100 \<Longrightarrow> b < 100 \<Longrightarrow> a = b"
proof -
  assume e: "two_digits a = two_digits b" and a: "a < 100" and b: "b < 100"
  then have "digit_char (a div 10 mod 10) = digit_char (b div 10 mod 10)"
    and "digit_char (a mod 10) = digit_char (b mod 10)"
    by (simp_all add: two_digits_def)
  then have "a div 10 mod 10 = b div 10 mod 10" and m: "a mod 10 = b mod 10"
    using digit_char_inj by simp_all
  with a b have "a div 10 = b div 10" by simp
  with m show "a = b" by (metis div_mult_mod_eq)
qed

lemma length_two_digits: "length (two_digits n) = 2"
  by (simp add: two_digits_def)

lemma days_in_month_le: "days_in_month y m \<le> 31"
  by (simp add: days_in_month_def)

lemma strftime_Y_m_d_inj:
  assumes "strftime_Y_m_d a = strftime_Y_m_d b" and "valid_date a" and "valid_date b"
  shows "a = b"
proof -
  have la: "length (''-'' @ two_digits (month a) @ ''-'' @ two_digits (day a))
              = length (''-'' @ two_digits (month b) @ ''-'' @ two_digits (day b))"
    by (simp add: length_two_digits)
  from assms(1) have "str_nat (year a) @ (''-'' @ two_digits (month a) @ ''-'' @ two_digits (day a))
                    = str_nat (year b) @ (''-'' @ two_digits (month b) @ ''-'' @ two_digits (day b))"
    by (simp add: strftime_Y_m_d_def)
  note eq = this
  have gen: "\<And>xs ys us vs :: string. length us = length vs \<Longrightarrow> xs @ us = ys @ vs
               \<Longrightarrow> xs = ys \<and> us = vs"
    by simp
  from gen [OF la eq] have y: "str_nat (year a) = str_nat (year b)"
    and r: "''-'' @ two_digits (month a) @ ''-'' @ two_digits (day a)
              = ''-'' @ two_digits (month b) @ ''-'' @ two_digits (day b)"
    by blast+
  from r have "two_digits (month a) = two_digits (month b)" and "two_digits (day a) = two_digits (day b)"
    by (simp_all add: length_two_digits)
  moreover have "month a < 100" "month b < 100" "day a < 100" "day b < 100"
    using assms(2,3) days_in_month_le [of "year a" "month a"] days_in_month_le [of "year b" "month b"]
    by (simp_all add: valid_date_def)
  ultimately have "month a = month b" and "day a = day b"
    using two_digits_inj by blast+
  with y str_nat_inj show ?thesis by simp
qed

lemma str_nat_four_digits:
  assumes "1000 \<le> n" and "n \<le> 9999"
  shows "str_nat n = four_digits n"
proof -
  have a: "\<not> n < 10" "\<not> n div 10 < 10" "\<not> n div 10 div 10 < 10" "n div 10 div 10 div 10 < 10"
    using assms by simp_all
  have "str_nat n = [digit_char (n div 10 div 10 div 10), digit_char (n div 10 div 10 mod 10),
                     digit_char (n div 10 mod 10), digit_char (n mod 10)]"
    using a
    by (simp add: str_nat.simps [of n] str_nat.simps [of "n div 10"]
        str_nat.simps [of "n div 10 div 10"] str_nat.simps [of "n div 10 div 10 div 10"])
  moreover have "n div 10 div 10 div 10 = n div 1000 mod 10" "n div 10 div 10 = n div 100"
    using assms by (simp_all add: div_mult2_eq [symmetric])
  ultimately show ?thesis by (simp add: four_digits_def)
qed

lemma strftime_iso:
  "1000 \<le> year d \<Longrightarrow> year d \<le> 9999 \<Longrightarrow> strftime_Y_m_d d = iso_date d"
  by (simp add: strftime_Y_m_d_def iso_date_def str_nat_four_digits)

lemma strftime_compact:
  "1000 \<le> year d \<Longrightarrow> year d \<le> 9999 \<Longrightarrow> strftime_Ymd d = compact_date d"
  by (simp add: strftime_Ymd_def compact_date_def str_nat_four_digits)

lemma toordinal_inj_add_days:
  assumes "valid_date d" and "year (add_days d j) \<le> 9999" and "i < j"
  shows "add_days d i \<noteq> add_days d j"
proof
  assume e: "add_days d i = add_days d j"
  have "year (add_days d i) \<le> 9999"
    using add_days_year_mono [of i j d] assms(2,3) by simp
  then have "toordinal (add_days d i) = toordinal d + i"
    using assms(1) toordinal_add_days by blast
  moreover have "toordinal (add_days d j) = toordinal d + j"
    using assms(1,2) toordinal_add_days by blast
  ultimately show False using e assms(3) by simp
qed

lemma pretty_date_distinct:
  assumes "valid_date d" and "year (add_days d j) \<le> 9999" and "i < j"
  shows "strftime_Y_m_d (add_days d i) \<noteq> strftime_Y_m_d (add_days d j)"
proof -
  have yi: "year (add_days d i) \<le> 9999"
    using add_days_year_mono [of i j d] assms(2,3) by simp
  have "valid_date (add_days d i)" "valid_date (add_days d j)"
    using assms(1,2) yi add_days_valid by blast+
  then show ?thesis
    using strftime_Y_m_d_inj toordinal_inj_add_days [OF assms] by blast
qed

section \<open>The range enricher: proofs\<close>


text \<open>
  One round of the loop: it stores the entry of its day and requests one URL when the
  date exists, and leaves the loop with the overflow otherwise.  The loop over
  \<open>[0..<n]\<close> then stores the entries of all days up to the first date that does not
  exist, each under a fresh key.
\<close>

lemma detail_url_of_timings [simp]: "detail_url_of (movie\<lparr>timings := x\<rparr>) d = detail_url_of movie d"
  by (simp add: detail_url_of_def)

lemma day_url_timings [simp]: "day_url (movie\<lparr>timings := x\<rparr>) start i = day_url movie start i"
  by (simp add: day_url_def)

lemma enrich_day_in_range:
  assumes "year (add_days start i) \<le> 9999"
  shows "\<exists>w'. enrich_day e start i (w, m)
            = (None, w',
               m\<lparr>timings := AList.update (strftime_Y_m_d (add_days start i))
                    \<lparr>day_of_week = strftime_A (add_days start i),
                     showtimes = (case (case http_get e (requested w) (day_url m start i) of
                                          Inl err \<Rightarrow> Inl err
                                        | Inr detail_html \<Rightarrow> extract_showtimes e detail_html) of
                                    Inr t \<Rightarrow> t | Inl err \<Rightarrow> [])\<rparr>
                    (timings m)\<rparr>)
          \<and> requested w' = requested w @ [day_url m start i]"
  using assms
  by (auto simp: enrich_day_def date_add_def fetch_page_def print_def day_url_def Let_def
      split: sum.splits)

lemma enrich_day_overflow:
  assumes "\<not> year (add_days start i) \<le> 9999"
  shows "enrich_day e start i (w, m) = (Some (OverflowError ''date value out of range''), w, m)"
  using assms by (simp add: enrich_day_def date_add_def)

lemma enrich_loop_append:
  "enrich_loop e start (xs @ ys) st =
     (case enrich_loop e start xs st of
        (Some err, w', m') \<Rightarrow> (Some err, w', m')
      | (None, w', m') \<Rightarrow> enrich_loop e start ys (w', m'))"
  by (induction xs arbitrary: st) (auto split: prod.splits option.splits)

lemma update_fresh: "k \<notin> fst ` set al \<Longrightarrow> AList.update k v al = al @ [(k, v)]"
  by (induction al) auto

lemma enrich_loop_in_range:
  assumes "valid_date start" and "\<forall>i<n. year (add_days start i) \<le> 9999"
  shows "\<exists>w'. enrich_loop e start [0..<n] (w, movie\<lparr>timings := []\<rparr>)
            = (None, w', movie\<lparr>timings := map (day_item e movie start w) [0..<n]\<rparr>)
          \<and> requested w' = requested w @ map (day_url movie start) [0..<n]"
  using assms(2)
proof (induction n)
  case 0
  then show ?case by simp
next
  case (Suc n)
  then obtain w1 where loop: "enrich_loop e start [0..<n] (w, movie\<lparr>timings := []\<rparr>)
            = (None, w1, movie\<lparr>timings := map (day_item e movie start w) [0..<n]\<rparr>)"
    and req: "requested w1 = requested w @ map (day_url movie start) [0..<n]"
    by auto
  let ?m = "movie\<lparr>timings := map (day_item e movie start w) [0..<n]\<rparr>"
  from Suc.prems have yn: "year (add_days start n) \<le> 9999" by simp
  from enrich_day_in_range [OF yn, of e w1 ?m] obtain w2
    where day: "enrich_day e start n (w1, ?m)
            = (None, w2,
               ?m\<lparr>timings := AList.update (strftime_Y_m_d (add_days start n))
                    \<lparr>day_of_week = strftime_A (add_days start n),
                     showtimes = (case (case http_get e (requested w1) (day_url ?m start n) of
                                          Inl err \<Rightarrow> Inl err
                                        | Inr detail_html \<Rightarrow> extract_showtimes e detail_html) of
                                    Inr t \<Rightarrow> t | Inl err \<Rightarrow> [])\<rparr>
                    (timings ?m)\<rparr>)"
      and req2: "requested w2 = requested w1 @ [day_url ?m start n]"
    by blast
  have fresh: "strftime_Y_m_d (add_days start n)
                 \<notin> fst ` set (map (day_item e movie start w) [0..<n])"
  proof
    assume "strftime_Y_m_d (add_days start n) \<in> fst ` set (map (day_item e movie start w) [0..<n])"
    then obtain i where "i < n" and "strftime_Y_m_d (add_days start n) = strftime_Y_m_d (add_days start i)"
      by (auto simp: day_item_def)
    with pretty_date_distinct [OF assms(1) yn, of i] show False by simp
  qed
  have val: "(strftime_Y_m_d (add_days start n),
              \<lparr>day_of_week = strftime_A (add_days start n),
                     showtimes = (case (case http_get e (requested w1) (day_url ?m start n) of
                                          Inl err \<Rightarrow> Inl err
                                        | Inr detail_html \<Rightarrow> extract_showtimes e detail_html) of
                                    Inr t \<Rightarrow> t | Inl err \<Rightarrow> [])\<rparr>)
             = day_item e movie start w n"
    by (simp add: day_item_def day_outcome_def req)
  have "enrich_loop e start [0..<Suc n] (w, movie\<lparr>timings := []\<rparr>)
          = (None, w2, movie\<lparr>timings := map (day_item e movie start w) [0..<Suc n]\<rparr>)"
    using loop day update_fresh [OF fresh] val
    by (simp add: enrich_loop_append)
  moreover have "requested w2 = requested w @ map (day_url movie start) [0..<Suc n]"
    using req req2 by simp
  ultimately show ?case by blast
qed

lemma enrich_loop_general:
  assumes "valid_date start"
  shows "\<exists>k w'. k \<le> n
          \<and> (\<forall>i<k. year (add_days start i) \<le> 9999)
          \<and> (k < n \<longrightarrow> \<not> year (add_days start k) \<le> 9999)
          \<and> enrich_loop e start [0..<n] (w, movie\<lparr>timings := []\<rparr>)
              = (if k = n then None else Some (OverflowError ''date value out of range''),
                 w', movie\<lparr>timings := map (day_item e movie start w) [0..<k]\<rparr>)
          \<and> requested w' = requested w @ map (day_url movie start) [0..<k]"
proof (cases "\<forall>i<n. year (add_days start i) \<le> 9999")
  case True
  from enrich_loop_in_range [OF assms True, of e w movie] True show ?thesis
    by (intro exI [of _ n]) auto
next
  case False
  define k where "k = (LEAST i. \<not> year (add_days start i) \<le> 9999)"
  from False obtain j where j: "j < n" "\<not> year (add_days start j) \<le> 9999" by auto
  have bad: "\<not> year (add_days start k) \<le> 9999"
    unfolding k_def using j(2) by (rule LeastI)
  have "k \<le> j" unfolding k_def using j(2) by (rule Least_le)
  with j(1) have kn: "k < n" by simp
  have good: "\<forall>i<k. year (add_days start i) \<le> 9999"
    unfolding k_def using not_less_Least by blast
  from enrich_loop_in_range [OF assms good, of e w movie] obtain w1
    where loop: "enrich_loop e start [0..<k] (w, movie\<lparr>timings := []\<rparr>)
            = (None, w1, movie\<lparr>timings := map (day_item e movie start w) [0..<k]\<rparr>)"
      and req: "requested w1 = requested w @ map (day_url movie start) [0..<k]"
    by blast
  have split: "[0..<n] = [0..<k] @ k # [Suc k..<n]"
    using kn by (metis le_add1 less_imp_add_positive plus_nat.add_0 upt_add_eq_append upt_conv_Cons)
  have "enrich_loop e start [0..<n] (w, movie\<lparr>timings := []\<rparr>)
          = (Some (OverflowError ''date value out of range''), w1,
             movie\<lparr>timings := map (day_item e movie start w) [0..<k]\<rparr>)"
    unfolding split using loop enrich_day_overflow [OF bad]
    by (simp add: enrich_loop_append)
  with kn good bad req show ?thesis
    by (intro exI [of _ k] exI [of _ w1]) auto
qed


lemma date_add_Inr: "date_add start i = Inr d \<longleftrightarrow> year (add_days start i) \<le> 9999 \<and> d = add_days start i"
  by (auto simp: date_add_def Let_def)

lemma in_range_below:
  "year (add_days start (n - 1)) \<le> 9999 \<Longrightarrow> i < n \<Longrightarrow> year (add_days start i) \<le> 9999"
proof -
  assume a: "year (add_days start (n - 1)) \<le> 9999" and b: "i < n"
  then have "i \<le> n - 1" by simp
  from add_days_year_mono [OF this, of start] a show ?thesis by simp
qed

lemma day_items_distinct:
  assumes "valid_date start" and "\<forall>i<k. year (add_days start i) \<le> 9999"
  shows "distinct (map fst (map (day_item e movie start w) [0..<k]))"
proof -
  have "inj_on (\<lambda>i. strftime_Y_m_d (add_days start i)) {0..<k}"
  proof (rule inj_onI)
    fix i j assume ij: "i \<in> {0..<k}" "j \<in> {0..<k}"
      and e: "strftime_Y_m_d (add_days start i) = strftime_Y_m_d (add_days start j)"
    show "i = j"
    proof (rule ccontr)
      assume "i \<noteq> j"
      then consider "i < j" | "j < i" by linarith
      then show False
      proof cases
        case 1
        with pretty_date_distinct [OF assms(1) _ 1] assms(2) ij e show False by simp
      next
        case 2
        with pretty_date_distinct [OF assms(1) _ 2] assms(2) ij e show False by simp
      qed
    qed
  qed
  then have "distinct (map (\<lambda>i. strftime_Y_m_d (add_days start i)) [0..<k])"
    by (simp add: distinct_map)
  moreover have "map fst (map (day_item e movie start w) [0..<k])
                   = map (\<lambda>i. strftime_Y_m_d (add_days start i)) [0..<k]"
    by (simp add: day_item_def)
  ultimately show ?thesis by (simp only:)
qed


text \<open>
  Claim C1, as the code has it.  Let the start date be parsed from the string, let the
  day count \<open>N\<close> be non-negative, and let the last of the \<open>N\<close> dates be no later than
  9999-12-31, the last date the library can hold.  Then, whatever the requests and the
  parser return, the enricher returns normally and \<open>timings\<close> has exactly \<open>N\<close> keys,
  all different: the \<open>%Y-%m-%d\<close> forms of the \<open>N\<close> consecutive dates from the start
  date on, in this order, which are the ISO strings \<open>YYYY-MM-DD\<close> when the year has four
  digits.  The \<open>day_of_week\<close> of each entry is the English name of the weekday of its
  date, and the weekday moves on by one, modulo seven, from each date to the next.
\<close>

theorem enrich_timings_keys:
  assumes "strptime_Ymd start_date_str = Inr start"
    and "0 \<le> days_to_check"
    and "year (add_days start (nat days_to_check - 1)) \<le> 9999"
    and "enrich_movie_with_timings_for_dates e movie start_date_str days_to_check w = (r, w', movie')"
  shows "r = None
     \<and> int (length (timings movie')) = days_to_check
     \<and> distinct (map fst (timings movie'))
     \<and> map fst (timings movie')
         = map (\<lambda>i. strftime_Y_m_d (add_days start i)) [0..<nat days_to_check]
     \<and> (1000 \<le> year start \<longrightarrow>
          map fst (timings movie') = map (\<lambda>i. iso_date (add_days start i)) [0..<nat days_to_check])
     \<and> map (\<lambda>kv. day_of_week (snd kv)) (timings movie')
         = map (\<lambda>i. day_names ! weekday (add_days start i)) [0..<nat days_to_check]
     \<and> (\<forall>i<nat days_to_check. weekday (add_days start i) = (weekday start + i) mod 7)"
proof -
  let ?n = "nat days_to_check"
  have v: "valid_date start" using assms(1) by (rule strptime_valid)
  have rng: "\<forall>i<?n. year (add_days start i) \<le> 9999"
    using assms(3) in_range_below by blast
  from enrich_loop_in_range [OF v rng, of e w movie] assms(1,4)
  have r: "r = None" and tm: "timings movie' = map (day_item e movie start w) [0..<?n]"
    by (auto simp: enrich_movie_with_timings_for_dates_def py_range_def)
  have keys: "map fst (timings movie') = map (\<lambda>i. strftime_Y_m_d (add_days start i)) [0..<?n]"
    by (simp add: tm day_item_def)
  have iso: "1000 \<le> year start \<longrightarrow>
          map fst (timings movie') = map (\<lambda>i. iso_date (add_days start i)) [0..<?n]"
  proof
    assume y: "1000 \<le> year start"
    have "\<forall>i<?n. strftime_Y_m_d (add_days start i) = iso_date (add_days start i)"
    proof (intro allI impI)
      fix i assume i: "i < ?n"
      have "year start \<le> year (add_days start i)"
        using add_days_year_mono [of 0 i start] by simp
      with y rng i show "strftime_Y_m_d (add_days start i) = iso_date (add_days start i)"
        by (simp add: strftime_iso)
    qed
    with keys show "map fst (timings movie') = map (\<lambda>i. iso_date (add_days start i)) [0..<?n]"
      by simp
  qed
  have dow: "map (\<lambda>kv. day_of_week (snd kv)) (timings movie')
         = map (\<lambda>i. day_names ! weekday (add_days start i)) [0..<?n]"
    by (simp add: tm day_item_def strftime_A_def)
  have wd: "\<forall>i<?n. weekday (add_days start i) = (weekday start + i) mod 7"
    using weekday_add_days [OF v] rng by simp
  have len: "int (length (timings movie')) = days_to_check"
    using assms(2) by (simp add: tm)
  have dist: "distinct (map fst (timings movie'))"
    unfolding tm by (rule day_items_distinct [OF v rng])
  from r len dist keys iso dow wd show ?thesis by blast
qed


text \<open>
  Claim C7, as the code has it.  For every date of the range that exists, the date is the
  start date advanced by its index in the range, the enricher issues a request for it, and
  the URL requested is the base URL, \<open>/movies/\<close>, the slug of the movie as it is (empty or
  not), \<open>?d=\<close>, the date as \<open>%Y%m%d\<close> prints it and \<open>#showtimes\<close>.  From the year 1000 on
  the date printed is the eight digits \<open>YYYYMMDD\<close>; before, the year is printed without
  leading zeros.  The requests of the range follow the requests made before, in the order
  of the dates.
\<close>

theorem enrich_detail_urls:
  assumes "strptime_Ymd start_date_str = Inr start"
    and "enrich_movie_with_timings_for_dates e movie start_date_str days_to_check w = (r, w', movie')"
    and "i < nat days_to_check"
    and "date_add start i = Inr d"
  shows "d = add_days start i
     \<and> toordinal d = toordinal start + i
     \<and> length (requested w) + i < length (requested w')
     \<and> requested w' ! (length (requested w) + i)
         = BASE_URL @ ''/movies/'' @ slug movie @ ''?d='' @ strftime_Ymd d @ ''#showtimes''
     \<and> (1000 \<le> year d \<longrightarrow>
          requested w' ! (length (requested w) + i)
            = BASE_URL @ ''/movies/'' @ slug movie @ ''?d='' @ compact_date d @ ''#showtimes'')
     \<and> take (length (requested w)) (requested w') = requested w"
proof -
  let ?n = "nat days_to_check"
  have v: "valid_date start" using assms(1) by (rule strptime_valid)
  from enrich_loop_general [OF v, of ?n e w movie] obtain k w1
    where kn: "k \<le> ?n"
      and bad: "k < ?n \<longrightarrow> \<not> year (add_days start k) \<le> 9999"
      and loop: "enrich_loop e start [0..<?n] (w, movie\<lparr>timings := []\<rparr>)
              = (if k = ?n then None else Some (OverflowError ''date value out of range''),
                 w1, movie\<lparr>timings := map (day_item e movie start w) [0..<k]\<rparr>)"
      and req: "requested w1 = requested w @ map (day_url movie start) [0..<k]"
    by blast
  from loop assms(1,2) have w': "w' = w1"
    by (auto simp: enrich_movie_with_timings_for_dates_def py_range_def)
  from assms(4) have yi: "year (add_days start i) \<le> 9999" and di: "d = add_days start i"
    by (simp_all add: date_add_Inr)
  have ord: "toordinal d = toordinal start + i"
    unfolding di using v yi by (rule toordinal_add_days)
  have ik: "i < k"
  proof (rule ccontr)
    assume "\<not> i < k"
    with assms(3) have "k \<le> i" "k < ?n" by simp_all
    with bad add_days_year_mono [of k i start] yi show False by simp
  qed
  have c1: "length (requested w) + i < length (requested w')"
    using ik by (simp add: w' req)
  have c2: "requested w' ! (length (requested w) + i)
         = BASE_URL @ ''/movies/'' @ slug movie @ ''?d='' @ strftime_Ymd d @ ''#showtimes''"
    using ik by (simp add: w' req nth_append day_url_def di detail_url_of_def)
  have c3: "1000 \<le> year d \<longrightarrow>
          requested w' ! (length (requested w) + i)
            = BASE_URL @ ''/movies/'' @ slug movie @ ''?d='' @ compact_date d @ ''#showtimes''"
  proof
    assume "1000 \<le> year d"
    then have "strftime_Ymd d = compact_date d"
      using yi di by (simp add: strftime_compact)
    with c2 show "requested w' ! (length (requested w) + i)
            = BASE_URL @ ''/movies/'' @ slug movie @ ''?d='' @ compact_date d @ ''#showtimes''"
      by simp
  qed
  have c4: "take (length (requested w)) (requested w') = requested w"
    by (simp add: w' req)
  from di ord c1 c2 c3 c4 show ?thesis by blast
qed

subsection \<open>The enricher on the example inputs\<close>


lemma add_days_numeral: "add_days d (numeral k) = next_day (add_days d (pred_numeral k))"
  by (simp add: numeral_eq_Suc)

lemma digit_char_eval:
  "digit_char 0 = CHR ''0'' \<and> digit_char 1 = CHR ''1'' \<and> digit_char (Suc 0) = CHR ''1''
   \<and> digit_char 2 = CHR ''2'' \<and> digit_char 3 = CHR ''3'' \<and> digit_char 4 = CHR ''4''
   \<and> digit_char 5 = CHR ''5'' \<and> digit_char 6 = CHR ''6'' \<and> digit_char 7 = CHR ''7''
   \<and> digit_char 8 = CHR ''8'' \<and> digit_char 9 = CHR ''9''"
  by code_simp

lemmas format_eval =
  iso_date_def compact_date_def four_digits_def two_digits_def digit_char_eval

lemmas weekday_eval =
  strftime_A_def weekday_def toordinal_def days_before_year_def days_before_month_def
  days_in_month_def is_leap_def day_names_def upt_rec

lemmas strptime_eval =
  strptime_Ymd_def month_alts_def day_alts_def is_digit_def digit_val_def Let_def
  days_in_month_def is_leap_def

lemma example_start: "strptime_Ymd ''20250212'' = Inr \<lparr>year = 2025, month = 2, day = 12\<rparr>"
  by (simp add: strptime_eval)

lemma next_day_eval:
  "next_day \<lparr>year = 2025, month = 2, day = 12\<rparr> = \<lparr>year = 2025, month = 2, day = 13\<rparr>"
  "next_day \<lparr>year = 2025, month = 2, day = 13\<rparr> = \<lparr>year = 2025, month = 2, day = 14\<rparr>"
  "next_day \<lparr>year = 2025, month = 2, day = 14\<rparr> = \<lparr>year = 2025, month = 2, day = 15\<rparr>"
  "next_day \<lparr>year = 9999, month = 12, day = 31\<rparr> = \<lparr>year = 10000, month = 1, day = 1\<rparr>"
  by (simp_all add: next_day_def days_in_month_def is_leap_def)

lemma example_days:
  "add_days \<lparr>year = 2025, month = 2, day = 12\<rparr> (Suc 0) = \<lparr>year = 2025, month = 2, day = 13\<rparr>"
  "add_days \<lparr>year = 2025, month = 2, day = 12\<rparr> 2 = \<lparr>year = 2025, month = 2, day = 14\<rparr>"
  "add_days \<lparr>year = 2025, month = 2, day = 12\<rparr> 3 = \<lparr>year = 2025, month = 2, day = 15\<rparr>"
  by (simp_all add: add_days_numeral next_day_eval)


lemma example_iso:
  "iso_date \<lparr>year = 2025, month = 2, day = 12\<rparr> = ''2025-02-12''"
  "iso_date \<lparr>year = 2025, month = 2, day = 13\<rparr> = ''2025-02-13''"
  "iso_date \<lparr>year = 2025, month = 2, day = 14\<rparr> = ''2025-02-14''"
  "iso_date \<lparr>year = 2025, month = 2, day = 15\<rparr> = ''2025-02-15''"
  "iso_date \<lparr>year = 9999, month = 12, day = 31\<rparr> = ''9999-12-31''"
  by (simp_all add: format_eval)

lemma example_compact:
  "compact_date \<lparr>year = 2025, month = 2, day = 12\<rparr> = ''20250212''"
  "compact_date \<lparr>year = 2025, month = 2, day = 13\<rparr> = ''20250213''"
  "compact_date \<lparr>year = 2025, month = 2, day = 14\<rparr> = ''20250214''"
  "compact_date \<lparr>year = 2025, month = 2, day = 15\<rparr> = ''20250215''"
  by (simp_all add: format_eval)

lemma str_nat_999: "str_nat 999 = ''999''"
  by (simp add: str_nat.simps [of 999] str_nat.simps [of 99] str_nat.simps [of 9] digit_char_eval)

lemma example_early_year:
  "strptime_Ymd ''09990101'' = Inr \<lparr>year = 999, month = 1, day = 1\<rparr>"
  "strftime_Ymd \<lparr>year = 999, month = 1, day = 1\<rparr> = ''9990101''"
  "strftime_Y_m_d \<lparr>year = 999, month = 1, day = 1\<rparr> = ''999-01-01''"
  "compact_date \<lparr>year = 999, month = 1, day = 1\<rparr> = ''09990101''"
  "iso_date \<lparr>year = 999, month = 1, day = 1\<rparr> = ''0999-01-01''"
  by (simp_all add: strptime_eval strftime_Ymd_def strftime_Y_m_d_def str_nat_999 format_eval)

lemma example_weekdays:
  "day_names ! weekday \<lparr>year = 2025, month = 2, day = 12\<rparr> = ''Wednesday''"
  "day_names ! weekday \<lparr>year = 2025, month = 2, day = 13\<rparr> = ''Thursday''"
  "day_names ! weekday \<lparr>year = 2025, month = 2, day = 14\<rparr> = ''Friday''"
  "day_names ! weekday \<lparr>year = 2025, month = 2, day = 15\<rparr> = ''Saturday''"
  by (simp_all add: weekday_eval)


text \<open>
  The claim as worded fails for a range that passes the last date of the library: from
  9999-12-31 with two days, the first day is stored, then the date addition raises
  \<open>OverflowError\<close>, which is not caught, and \<open>timings\<close> has one key, not two.
\<close>


theorem enrich_timings_keys_counterexample:
  "strptime_Ymd ''99991231'' = Inr \<lparr>year = 9999, month = 12, day = 31\<rparr>
   \<and> fst (enrich_movie_with_timings_for_dates example_env example_movie ''99991231'' 2 example_world)
       = Some (OverflowError ''date value out of range'')
   \<and> map fst (timings (snd (snd
         (enrich_movie_with_timings_for_dates example_env example_movie ''99991231'' 2 example_world))))
       = [''9999-12-31'']"
proof -
  let ?start = "\<lparr>year = 9999, month = 12, day = 31\<rparr>"
  let ?m = "example_movie\<lparr>timings := []\<rparr>"
  have s: "strptime_Ymd ''99991231'' = Inr ?start"
    by (simp add: strptime_eval)
  have k: "strftime_Y_m_d ?start = ''9999-12-31''"
    by (simp add: strftime_iso example_iso)
  have run: "enrich_movie_with_timings_for_dates example_env example_movie ''99991231'' 2 example_world
          = enrich_loop example_env ?start [0, Suc 0] (example_world, ?m)"
    by (simp add: enrich_movie_with_timings_for_dates_def s py_range_def upt_rec)
  have y0: "year (add_days ?start 0) \<le> 9999"
    by simp
  from enrich_day_in_range [OF y0, of example_env example_world ?m] obtain w1 v
    where d0: "enrich_day example_env ?start 0 (example_world, ?m)
                 = (None, w1, ?m\<lparr>timings := AList.update (strftime_Y_m_d ?start) v (timings ?m)\<rparr>)"
    by auto
  have y1: "\<not> year (add_days ?start (Suc 0)) \<le> 9999"
    by (simp add: next_day_eval)
  note d1 = enrich_day_overflow [OF y1]
  have "enrich_loop example_env ?start [0, Suc 0] (example_world, ?m)
          = (Some (OverflowError ''date value out of range''), w1,
             ?m\<lparr>timings := AList.update (strftime_Y_m_d ?start) v (timings ?m)\<rparr>)"
    by (simp add: d0 d1)
  with run s show ?thesis
    by (simp add: k)
qed


theorem enrich_timings_keys_witness:
  "strptime_Ymd ''20250212'' = Inr \<lparr>year = 2025, month = 2, day = 12\<rparr>
   \<and> year (add_days \<lparr>year = 2025, month = 2, day = 12\<rparr> (nat 3 - 1)) \<le> 9999
   \<and> fst (enrich_movie_with_timings_for_dates example_env example_movie ''20250212'' 3 example_world)
       = None
   \<and> map fst (timings (snd (snd
         (enrich_movie_with_timings_for_dates example_env example_movie ''20250212'' 3 example_world))))
       = [''2025-02-12'', ''2025-02-13'', ''2025-02-14'']
   \<and> map (\<lambda>kv. day_of_week (snd kv)) (timings (snd (snd
         (enrich_movie_with_timings_for_dates example_env example_movie ''20250212'' 3 example_world))))
       = [''Wednesday'', ''Thursday'', ''Friday'']"
proof -
  let ?start = "\<lparr>year = 2025, month = 2, day = 12\<rparr>"
  let ?res = "enrich_movie_with_timings_for_dates example_env example_movie ''20250212'' 3 example_world"
  have h2: "(0::int) \<le> 3"
    by simp
  have h3: "year (add_days ?start (nat 3 - 1)) \<le> 9999"
    by (simp add: example_days)
  have h4: "?res = (fst ?res, fst (snd ?res), snd (snd ?res))"
    by simp
  have y: "1000 \<le> year ?start"
    by simp
  have r: "[0..<nat 3] = [0, Suc 0, 2]"
    by (simp add: upt_rec)
  have keys: "map (\<lambda>i. iso_date (add_days ?start i)) [0..<nat 3]
                = [''2025-02-12'', ''2025-02-13'', ''2025-02-14'']"
    unfolding r by (simp add: example_days next_day_eval example_iso)
  have dows: "map (\<lambda>i. day_names ! weekday (add_days ?start i)) [0..<nat 3]
                = [''Wednesday'', ''Thursday'', ''Friday'']"
    unfolding r by (simp add: example_days next_day_eval example_weekdays)
  note t = enrich_timings_keys [OF example_start h2 h3 h4]
  from t have c1: "fst ?res = None"
    by blast
  from t y have "map fst (timings (snd (snd ?res))) = map (\<lambda>i. iso_date (add_days ?start i)) [0..<nat 3]"
    by blast
  then have c2: "map fst (timings (snd (snd ?res))) = [''2025-02-12'', ''2025-02-13'', ''2025-02-14'']"
    by (simp only: keys)
  from t have "map (\<lambda>kv. day_of_week (snd kv)) (timings (snd (snd ?res)))
                 = map (\<lambda>i. day_names ! weekday (add_days ?start i)) [0..<nat 3]"
    by blast
  then have c3: "map (\<lambda>kv. day_of_week (snd kv)) (timings (snd (snd ?res)))
                   = [''Wednesday'', ''Thursday'', ''Friday'']"
    by (simp only: dows)
  from example_start h3 c1 c2 c3 show ?thesis
    by blast
qed




theorem enrich_detail_urls_witness:
  "strptime_Ymd ''20250212'' = Inr \<lparr>year = 2025, month = 2, day = 12\<rparr>
   \<and> date_add \<lparr>year = 2025, month = 2, day = 12\<rparr> 0 = Inr \<lparr>year = 2025, month = 2, day = 12\<rparr>
   \<and> date_add \<lparr>year = 2025, month = 2, day = 12\<rparr> 1 = Inr \<lparr>year = 2025, month = 2, day = 13\<rparr>
   \<and> slug example_no_slug_movie = []
   \<and> requested (fst (snd (enrich_movie_with_timings_for_dates example_env example_no_slug_movie
                            ''20250212'' 10 example_world))) ! 0
       = ''https://ksa.voxcinemas.com/movies/?d=20250212#showtimes''
   \<and> requested (fst (snd (enrich_movie_with_timings_for_dates example_env example_no_slug_movie
                            ''20250212'' 10 example_world))) ! 1
       = ''https://ksa.voxcinemas.com/movies/?d=20250213#showtimes''
   \<and> toordinal \<lparr>year = 2025, month = 2, day = 13\<rparr>
       = toordinal \<lparr>year = 2025, month = 2, day = 12\<rparr> + 1"
proof -
  let ?start = "\<lparr>year = 2025, month = 2, day = 12\<rparr>"
  let ?next = "\<lparr>year = 2025, month = 2, day = 13\<rparr>"
  let ?res = "enrich_movie_with_timings_for_dates example_env example_no_slug_movie
                ''20250212'' 10 example_world"
  have h2: "?res = (fst ?res, fst (snd ?res), snd (snd ?res))"
    by simp
  have i0: "0 < nat 10" and i1: "1 < nat 10"
    by simp_all
  have d0: "date_add ?start 0 = Inr ?start"
    by (simp add: date_add_def)
  have d1: "date_add ?start 1 = Inr ?next"
    by (simp add: date_add_def next_day_eval)
  have s: "slug example_no_slug_movie = []"
    by (simp add: example_no_slug_movie_def)
  have y0: "1000 \<le> year ?start" and y1: "1000 \<le> year ?next"
    by simp_all
  have w: "length (requested example_world) = 0"
    by (simp add: example_world_def)
  note t0 = enrich_detail_urls [OF example_start h2 i0 d0]
  note t1 = enrich_detail_urls [OF example_start h2 i1 d1]
  from t0 y0
  have "requested (fst (snd ?res)) ! (length (requested example_world) + 0)
          = BASE_URL @ ''/movies/'' @ slug example_no_slug_movie @ ''?d='' @ compact_date ?start
            @ ''#showtimes''"
    by blast
  then have c0: "requested (fst (snd ?res)) ! 0
                   = ''https://ksa.voxcinemas.com/movies/?d=20250212#showtimes''"
    by (simp add: w s example_compact BASE_URL_def)
  from t1 y1
  have "requested (fst (snd ?res)) ! (length (requested example_world) + 1)
          = BASE_URL @ ''/movies/'' @ slug example_no_slug_movie @ ''?d='' @ compact_date ?next
            @ ''#showtimes''"
    by blast
  then have c1: "requested (fst (snd ?res)) ! 1
                   = ''https://ksa.voxcinemas.com/movies/?d=20250213#showtimes''"
    by (simp add: w s example_compact BASE_URL_def)
  from t1 have c2: "toordinal ?next = toordinal ?start + 1"
    by blast
  from example_start d0 d1 s c0 c1 c2 show ?thesis
    by blast
qed

text \<open>
  The claim as worded fails for a start date before the year 1000: from 0999-01-01 the
  compact date is \<open>09990101\<close>, and the request goes to \<open>?d=9990101\<close>, since \<open>%Y\<close> prints the
  year without leading zeros.
\<close>

theorem enrich_detail_urls_counterexample:
  "strptime_Ymd ''09990101'' = Inr \<lparr>year = 999, month = 1, day = 1\<rparr>
   \<and> compact_date \<lparr>year = 999, month = 1, day = 1\<rparr> = ''09990101''
   \<and> BASE_URL @ ''/movies/'' @ slug example_movie @ ''?d=''
         @ compact_date \<lparr>year = 999, month = 1, day = 1\<rparr> @ ''#showtimes''
       = ''https://ksa.voxcinemas.com/movies/dune?d=09990101#showtimes''
   \<and> fst (enrich_movie_with_timings_for_dates example_env example_movie ''09990101'' 1 example_world)
       = None
   \<and> requested (fst (snd
         (enrich_movie_with_timings_for_dates example_env example_movie ''09990101'' 1 example_world)))
       = [''https://ksa.voxcinemas.com/movies/dune?d=9990101#showtimes'']"
proof -
  let ?start = "\<lparr>year = 999, month = 1, day = 1\<rparr>"
  have v: "valid_date ?start"
    using example_early_year(1) by (rule strptime_valid)
  have rng: "\<forall>i<1. year (add_days ?start i) \<le> 9999"
    by simp
  from enrich_loop_in_range [OF v rng, of example_env example_world example_movie] obtain w1
    where loop: "enrich_loop example_env ?start [0..<1] (example_world, example_movie\<lparr>timings := []\<rparr>)
            = (None, w1,
               example_movie\<lparr>timings := map (day_item example_env example_movie ?start example_world) [0..<1]\<rparr>)"
      and req: "requested w1 = requested example_world @ map (day_url example_movie ?start) [0..<1]"
    by blast
  have run: "enrich_movie_with_timings_for_dates example_env example_movie ''09990101'' 1 example_world
               = enrich_loop example_env ?start [0..<1] (example_world, example_movie\<lparr>timings := []\<rparr>)"
    by (simp add: enrich_movie_with_timings_for_dates_def example_early_year(1) py_range_def)
  have url: "day_url example_movie ?start 0
               = ''https://ksa.voxcinemas.com/movies/dune?d=9990101#showtimes''"
    by (simp add: day_url_def detail_url_of_def BASE_URL_def example_movie_def strftime_Ymd_def
        str_nat_999 format_eval)
  have claimed: "BASE_URL @ ''/movies/'' @ slug example_movie @ ''?d=''
                   @ compact_date ?start @ ''#showtimes''
                 = ''https://ksa.voxcinemas.com/movies/dune?d=09990101#showtimes''"
    by (simp add: BASE_URL_def example_movie_def format_eval)
  have "requested w1 = [''https://ksa.voxcinemas.com/movies/dune?d=9990101#showtimes'']"
    unfolding req using url by (simp add: example_world_def)
  then have "fst (enrich_movie_with_timings_for_dates example_env example_movie ''09990101'' 1
                    example_world) = None
      \<and> requested (fst (snd (enrich_movie_with_timings_for_dates example_env example_movie
                                ''09990101'' 1 example_world)))
          = [''https://ksa.voxcinemas.com/movies/dune?d=9990101#showtimes'']"
    unfolding run loop by simp
  with example_early_year(1,4) claimed show ?thesis
    by blast
qed

section \<open>The orchestrator: proofs\<close>

lemma main_returns: "fst (main e w) = None"
  by (simp add: main_def Let_def split: prod.splits option.splits)

text \<open>
  Claim C8, as the code has it.  When the file cannot be written, the exporter hands
  the error to its caller: nothing in \<open>save_movies_to_json_file\<close> catches it.  In
  \<open>main\<close> the call of the exporter stands inside the \<open>try\<close>, so the handler
  \<open>except Exception\<close> of \<open>main\<close> catches the error and prints it after the words
  \<open>Error fetching movie data:\<close>, and \<open>main\<close> returns normally.  No exception ever
  leaves \<open>main\<close>.
\<close>

theorem main_catches_write_error:
  "(file_write e filename (json_dumps (JArray (map asdict movies))) = Some err \<longrightarrow>
      save_movies_to_json_file e movies filename w = (Some err, w))
   \<and> fst (main e w) = None
   \<and> (fetch_page e whatson_url (print (''Fetching movie listings from: '' @ whatson_url) w)
         = (Inr html, w1)
       \<and> parse_movies e html = Inr ms
       \<and> enrich_all e ms (print (''Found '' @ str_nat (length ms) @ '' movies.'' @ [CHR 0x0A]) w1)
           = (None, w3, ms')
       \<and> file_write e ''movies.json'' (json_dumps (JArray (map asdict ms'))) = Some err
      \<longrightarrow> main e w = (None, print (''Error fetching movie data: '' @ message err) w3))"
proof (intro conjI impI)
  assume "file_write e filename (json_dumps (JArray (map asdict movies))) = Some err"
  then show "save_movies_to_json_file e movies filename w = (Some err, w)"
    by (simp add: save_movies_to_json_file_def Let_def)
next
  show "fst (main e w) = None" by (rule main_returns)
next
  assume a: "fetch_page e whatson_url (print (''Fetching movie listings from: '' @ whatson_url) w)
         = (Inr html, w1)
       \<and> parse_movies e html = Inr ms
       \<and> enrich_all e ms (print (''Found '' @ str_nat (length ms) @ '' movies.'' @ [CHR 0x0A]) w1)
           = (None, w3, ms')
       \<and> file_write e ''movies.json'' (json_dumps (JArray (map asdict ms'))) = Some err"
  then have "main_try e (print (''Fetching movie listings from: '' @ whatson_url) w) = (Some err, w3)"
    by (simp add: main_try_def Let_def save_movies_to_json_file_def)
  then show "main e w = (None, print (''Error fetching movie data: '' @ message err) w3)"
    by (simp add: main_def Let_def)
qed

lemma example_empty_listing: "parse_movies_soup example_empty_soup = []"
  by code_simp

lemma str_nat_0: "str_nat 0 = ''0''"
  by (simp add: str_nat.simps digit_char_eval)

lemma example_full_disk_run:
  "main example_full_disk_env example_world
     = (None,
        \<lparr>requested = [''https://ksa.voxcinemas.com/movies/whatson''],
         console = [''Fetching movie listings from: https://ksa.voxcinemas.com/movies/whatson'',
                    ''Found 0 movies.'' @ [CHR 0x0A],
                    ''Error fetching movie data: [Errno 28] No space left on device''],
         files = []\<rparr>)"
  by (simp add: main_def main_try_def fetch_page_def parse_movies_def example_full_disk_env_def
      example_empty_listing str_nat_0 save_movies_to_json_file_def print_def whatson_url_def
      BASE_URL_def example_world_def Let_def)

text \<open>
  The claim as worded fails: with an empty listing page and a full disk, the write
  error raised by the exporter does not leave \<open>main\<close>; \<open>main\<close> prints it and
  returns.
\<close>

theorem main_catches_write_error_counterexample:
  "save_movies_to_json_file example_full_disk_env [] ''movies.json'' example_world
     = (Some (WriteError ''[Errno 28] No space left on device''), example_world)
   \<and> fst (main example_full_disk_env example_world) = None
   \<and> console (snd (main example_full_disk_env example_world))
       = [''Fetching movie listings from: https://ksa.voxcinemas.com/movies/whatson'',
          ''Found 0 movies.'' @ [CHR 0x0A],
          ''Error fetching movie data: [Errno 28] No space left on device'']
   \<and> files (snd (main example_full_disk_env example_world)) = []"
proof -
  have "save_movies_to_json_file example_full_disk_env [] ''movies.json'' example_world
          = (Some (WriteError ''[Errno 28] No space left on device''), example_world)"
    by (simp add: save_movies_to_json_file_def example_full_disk_env_def)
  then show ?thesis
    by (simp add: example_full_disk_run)
qed

theorem main_catches_write_error_witness:
  "file_write example_full_disk_env ''movies.json'' (json_dumps (JArray (map asdict [])))
     = Some (WriteError ''[Errno 28] No space left on device'')
   \<and> save_movies_to_json_file example_full_disk_env [] ''movies.json'' example_world
       = (Some (WriteError ''[Errno 28] No space left on device''), example_world)
   \<and> parse_movies example_full_disk_env ''<html>'' = Inr []
   \<and> fst (main example_full_disk_env example_world) = None
   \<and> last (console (snd (main example_full_disk_env example_world)))
       = ''Error fetching movie data: [Errno 28] No space left on device''"
proof -
  let ?e = example_full_disk_env
  let ?err = "WriteError ''[Errno 28] No space left on device''"
  let ?w0 = "print (''Fetching movie listings from: '' @ whatson_url) example_world"
  let ?w1 = "?w0\<lparr>requested := requested ?w0 @ [whatson_url]\<rparr>"
  let ?w3 = "print (''Found '' @ str_nat (length ([] :: Movie list)) @ '' movies.'' @ [CHR 0x0A]) ?w1"
  have h1: "file_write ?e ''movies.json'' (json_dumps (JArray (map asdict []))) = Some ?err"
    by (simp add: example_full_disk_env_def)
  have h2: "fetch_page ?e whatson_url ?w0 = (Inr ''<html>'', ?w1)"
    by (simp add: fetch_page_def example_full_disk_env_def)
  have h3: "parse_movies ?e ''<html>'' = Inr []"
    by (simp add: parse_movies_def example_full_disk_env_def example_empty_listing)
  have h4: "enrich_all ?e [] ?w3 = (None, ?w3, [])"
    by simp
  note t = main_catches_write_error
             [where e = ?e and filename = "''movies.json''" and movies = "[]" and err = ?err
                and w = example_world and html = "''<html>''" and ?w1.0 = ?w1 and ms = "[]"
                and ?w3.0 = ?w3 and ms' = "[]"]
  from t h1 have c1: "save_movies_to_json_file ?e [] ''movies.json'' example_world
                        = (Some ?err, example_world)"
    by blast
  from t have c2: "fst (main ?e example_world) = None"
    by blast
  from t h1 h2 h3 h4
  have "main ?e example_world = (None, print (''Error fetching movie data: '' @ message ?err) ?w3)"
    by blast
  then have c3: "last (console (snd (main ?e example_world)))
                   = ''Error fetching movie data: [Errno 28] No space left on device''"
    by (simp add: print_def)
  from h1 c1 h3 c2 c3 show ?thesis by blast
qed

section \<open>Reading the export back: proofs\<close>





































end
